theory Spec2Isabelle
  imports Complex_Main
begin

section \<open>Arrays\<close>

text \<open>
  The notebook \<^verbatim>\<open>denoising_autoencoder.ipynb\<close> is a sequence of statements over numpy
  arrays, a Keras model and matplotlib figures. The statements are modelled one by one,
  as steps on the notebook's variables; the library functions they call are modelled by
  what they return, raise and show for the arguments the notebook passes.

  An array is its shape, its element type tag and its elements in row-major order.
  Element values are real numbers: the rounding of the binary floating-point formats
  is not modelled, only which format an array is stored in (\<open>dtype\<close>).
\<close>

datatype dtype = UInt8 | Float32 | Float64

datatype error = ValueError | IndexError | TypeError | NameError | RuntimeError | Unsupported

record ndarray =
  shape :: "nat list"
  dtype :: dtype
  data :: "real list"

definition well_formed :: "ndarray \<Rightarrow> bool" where
  "well_formed a \<longleftrightarrow> length (data a) = prod_list (shape a)"

text \<open>Number of bits of one element.\<close>

fun itemsize :: "dtype \<Rightarrow> nat" where
  "itemsize UInt8 = 8"
| "itemsize Float32 = 32"
| "itemsize Float64 = 64"

text \<open>
  Type of the result of an operation between an array and a Python \<open>float\<close> scalar: a
  floating array keeps its type, an integer array becomes \<open>float64\<close>.
\<close>

fun with_float_scalar :: "dtype \<Rightarrow> dtype" where
  "with_float_scalar UInt8 = Float64"
| "with_float_scalar Float32 = Float32"
| "with_float_scalar Float64 = Float64"

text \<open>Type of the result of an operation between two arrays.\<close>

fun result_type :: "dtype \<Rightarrow> dtype \<Rightarrow> dtype" where
  "result_type Float64 _ = Float64"
| "result_type _ Float64 = Float64"
| "result_type Float32 _ = Float32"
| "result_type _ Float32 = Float32"
| "result_type UInt8 UInt8 = UInt8"

definition bind_err :: "error + 'a \<Rightarrow> ('a \<Rightarrow> error + 'b) \<Rightarrow> error + 'b" where
  "bind_err m f = (case m of Inl e \<Rightarrow> Inl e | Inr v \<Rightarrow> f v)"

text \<open>
  \<^verbatim>\<open>a.astype(d)\<close>. The only target type in the notebook is \<open>float32\<close> (for the raw
  pixels, and inside \<^verbatim>\<open>predict\<close> for the noisy batch); the values are kept, up to the
  rounding that is not modelled. A conversion to an integer type would truncate; there
  is none.
\<close>

definition astype :: "ndarray \<Rightarrow> dtype \<Rightarrow> ndarray" where
  "astype a d = a\<lparr>dtype := d\<rparr>"

text \<open>
  \<^verbatim>\<open>a / c\<close> for a Python float \<open>c\<close>. The notebook's \<open>c\<close> is the literal \<open>255.\<close>; a
  division by zero, where numpy gives infinities, is outside the model.
\<close>

definition div_scalar :: "ndarray \<Rightarrow> real \<Rightarrow> ndarray" where
  "div_scalar a c = a\<lparr>dtype := with_float_scalar (dtype a), data := map (\<lambda>v. v / c) (data a)\<rparr>"

text \<open>\<^verbatim>\<open>c * a\<close> for a Python float \<open>c\<close>.\<close>

definition scalar_mul :: "real \<Rightarrow> ndarray \<Rightarrow> ndarray" where
  "scalar_mul c a = a\<lparr>dtype := with_float_scalar (dtype a), data := map (\<lambda>v. c * v) (data a)\<rparr>"

text \<open>\<^verbatim>\<open>len(a)\<close>: the first dimension; an array without dimensions has no length.\<close>

definition len :: "ndarray \<Rightarrow> error + nat" where
  "len a = (case shape a of [] \<Rightarrow> Inl TypeError | k # _ \<Rightarrow> Inr k)"

text \<open>\<^verbatim>\<open>np.reshape(a, shp)\<close>: the element count must stay the same.\<close>

definition reshape :: "ndarray \<Rightarrow> nat list \<Rightarrow> error + ndarray" where
  "reshape a shp = (if prod_list shp = prod_list (shape a) then Inr (a\<lparr>shape := shp\<rparr>) else Inl ValueError)"

text \<open>
  \<^verbatim>\<open>a + b\<close>. The notebook only adds arrays of one shape; shapes that differ, which numpy
  would try to broadcast, are outside the model.
\<close>

definition add :: "ndarray \<Rightarrow> ndarray \<Rightarrow> error + ndarray" where
  "add a b =
     (if shape a = shape b
      then Inr \<lparr>shape = shape a, dtype = result_type (dtype a) (dtype b),
                data = map2 (\<lambda>u v. u + v) (data a) (data b)\<rparr>
      else Inl Unsupported)"

text \<open>\<^verbatim>\<open>np.clip(a, lo, hi)\<close> with Python float bounds: \<open>minimum(maximum(a, lo), hi)\<close>.\<close>

definition clip :: "ndarray \<Rightarrow> real \<Rightarrow> real \<Rightarrow> ndarray" where
  "clip a lo hi = a\<lparr>dtype := with_float_scalar (dtype a), data := map (\<lambda>v. min (max v lo) hi) (data a)\<rparr>"

text \<open>\<^verbatim>\<open>a[i]\<close> for \<open>i\<close> from \<^verbatim>\<open>range(n)\<close>: the \<open>i\<close>-th slice along the first dimension.\<close>

definition getitem :: "ndarray \<Rightarrow> nat \<Rightarrow> error + ndarray" where
  "getitem a i =
     (case shape a of
        [] \<Rightarrow> Inl IndexError
      | k # rest \<Rightarrow>
          if i < k
          then Inr \<lparr>shape = rest, dtype = dtype a,
                    data = take (prod_list rest) (drop (i * prod_list rest) (data a))\<rparr>
          else Inl IndexError)"

text \<open>
  \<^verbatim>\<open>np.random.normal(loc, scale, size)\<close>. The generator is a sequence \<open>draws\<close> of standard
  normal samples and a position in it; a call takes one sample per element, in order, and
  returns the array (always \<open>float64\<close>) with the new position.
\<close>

definition random_normal :: "(nat \<Rightarrow> real) \<Rightarrow> nat \<Rightarrow> real \<Rightarrow> real \<Rightarrow> nat list \<Rightarrow> ndarray \<times> nat" where
  "random_normal draws pos loc scale shp =
     (\<lparr>shape = shp, dtype = Float64,
       data = map (\<lambda>k. loc + scale * draws k) [pos ..< pos + prod_list shp]\<rparr>,
      pos + prod_list shp)"

section \<open>Layers and models\<close>

text \<open>
  The layer classes the notebook instantiates, with the arguments it passes: the number
  of filters, the kernel (or pool, or repeat) size, the activation and the padding mode.
  Strides are the library defaults: 1 for a convolution, the pool size for a pooling.
\<close>

datatype activation = Relu | Sigmoid

datatype padding = Same | Valid

datatype layer =
    Conv2D nat "nat \<times> nat" activation padding
  | MaxPooling2D "nat \<times> nat" padding
  | UpSampling2D "nat \<times> nat"

fun activate :: "activation \<Rightarrow> real \<Rightarrow> real" where
  "activate Relu v = max 0 v"
| "activate Sigmoid v = 1 / (1 + exp (- v))"

text \<open>Output length along one axis of a stride-1 convolution with kernel length \<open>k\<close>.\<close>

definition conv_out :: "padding \<Rightarrow> nat \<Rightarrow> nat \<Rightarrow> error + nat" where
  "conv_out p k h =
     (if k = 0 then Inl ValueError
      else case p of Same \<Rightarrow> Inr h
                   | Valid \<Rightarrow> if k \<le> h then Inr (h - k + 1) else Inl ValueError)"

text \<open>Output length along one axis of a pooling with window and stride \<open>k\<close>.\<close>

definition pool_out :: "padding \<Rightarrow> nat \<Rightarrow> nat \<Rightarrow> error + nat" where
  "pool_out p k h =
     (if k = 0 then Inl ValueError
      else case p of Same \<Rightarrow> Inr ((h + k - 1) div k)
                   | Valid \<Rightarrow> if k \<le> h then Inr ((h - k) div k + 1) else Inl ValueError)"

text \<open>Shape inference of a layer on one sample of shape (height, width, channels).\<close>

fun layer_shape :: "layer \<Rightarrow> nat list \<Rightarrow> error + nat list" where
  "layer_shape (Conv2D f (kh, kw) act p) [h, w, c] =
     bind_err (conv_out p kh h) (\<lambda>oh. bind_err (conv_out p kw w) (\<lambda>ow. Inr [oh, ow, f]))"
| "layer_shape (MaxPooling2D (ph, pw) p) [h, w, c] =
     bind_err (pool_out p ph h) (\<lambda>oh. bind_err (pool_out p pw w) (\<lambda>ow. Inr [oh, ow, c]))"
| "layer_shape (UpSampling2D (sh, sw)) [h, w, c] = Inr [h * sh, w * sw, c]"
| "layer_shape _ _ = Inl ValueError"

text \<open>
  A symbolic tensor of the functional API: its per-sample shape and the layers that were
  called, in order, to produce it from the input.
\<close>

record ktensor =
  kshape :: "nat list"
  history :: "layer list"

definition Input :: "nat list \<Rightarrow> ktensor" where
  "Input shp = \<lparr>kshape = shp, history = []\<rparr>"

text \<open>\<^verbatim>\<open>L(t)\<close>: calling layer \<open>L\<close> on the symbolic tensor \<open>t\<close>.\<close>

definition call :: "layer \<Rightarrow> ktensor \<Rightarrow> error + ktensor" where
  "call l t = bind_err (layer_shape l (kshape t)) (\<lambda>s. Inr \<lparr>kshape = s, history = history t @ [l]\<rparr>)"

text \<open>
  The trainable values of one convolution: the kernel, indexed by (row, column, input
  channel, filter), and the bias, indexed by filter. The parameters of a model give such a
  pair for the position of every layer; layers without parameters ignore theirs.
\<close>

type_synonym conv_weights = "(nat \<Rightarrow> nat \<Rightarrow> nat \<Rightarrow> nat \<Rightarrow> real) \<times> (nat \<Rightarrow> real)"

type_synonym params = "nat \<Rightarrow> conv_weights"

text \<open>Element \<open>[n, i, j, c]\<close> of a batch of shape \<open>[N, h, w, ch]\<close>.\<close>

definition at4 :: "ndarray \<Rightarrow> nat \<Rightarrow> nat \<Rightarrow> nat \<Rightarrow> nat \<Rightarrow> real" where
  "at4 x n i j c =
     (case shape x of
        [_, h, w, ch] \<Rightarrow> data x ! (((n * h + i) * w + j) * ch + c)
      | _ \<Rightarrow> 0)"

text \<open>
  The same element of the batch seen through a border of \<open>pt\<close> rows above and \<open>pl\<close>
  columns to the left: \<open>None\<close> where \<open>(i, j)\<close> falls on the border.
\<close>

definition at_pad :: "ndarray \<Rightarrow> nat \<Rightarrow> nat \<Rightarrow> nat \<Rightarrow> nat \<Rightarrow> nat \<Rightarrow> nat \<Rightarrow> real option" where
  "at_pad x pt pl n i j c =
     (case shape x of
        [_, h, w, _] \<Rightarrow>
          if pt \<le> i \<and> i - pt < h \<and> pl \<le> j \<and> j - pl < w
          then Some (at4 x n (i - pt) (j - pl) c) else None
      | _ \<Rightarrow> None)"

text \<open>
  Rows (or columns) of border before the data: \<open>same\<close> padding adds just enough border
  for the output length above, the smaller half of it in front.
\<close>

definition conv_pad :: "padding \<Rightarrow> nat \<Rightarrow> nat" where
  "conv_pad p k = (case p of Same \<Rightarrow> (k - 1) div 2 | Valid \<Rightarrow> 0)"

definition pool_pad :: "padding \<Rightarrow> nat \<Rightarrow> nat \<Rightarrow> nat" where
  "pool_pad p k h = (case p of Same \<Rightarrow> (((h + k - 1) div k) * k - h) div 2 | Valid \<Rightarrow> 0)"

text \<open>A convolution: the border counts as zero.\<close>

definition conv2d ::
  "nat \<Rightarrow> nat \<times> nat \<Rightarrow> activation \<Rightarrow> padding \<Rightarrow> conv_weights \<Rightarrow> ndarray \<Rightarrow> error + ndarray" where
  "conv2d f ks act p wts x =
     (case shape x of
        [N, h, w, ch] \<Rightarrow>
          bind_err (conv_out p (fst ks) h) (\<lambda>oh.
          bind_err (conv_out p (snd ks) w) (\<lambda>ow.
            Inr \<lparr>shape = [N, oh, ow, f], dtype = Float32,
                 data =
                   [activate act
                      (snd wts u +
                       sum_list
                         [fst wts di dj ci u *
                            (case at_pad x (conv_pad p (fst ks)) (conv_pad p (snd ks)) n (i + di) (j + dj) ci
                             of None \<Rightarrow> 0 | Some v \<Rightarrow> v).
                          di \<leftarrow> [0 ..< fst ks], dj \<leftarrow> [0 ..< snd ks], ci \<leftarrow> [0 ..< ch]]).
                    n \<leftarrow> [0 ..< N], i \<leftarrow> [0 ..< oh], j \<leftarrow> [0 ..< ow], u \<leftarrow> [0 ..< f]]\<rparr>))
      | _ \<Rightarrow> Inl ValueError)"

text \<open>The largest element of a pooling window (a window always holds an element).\<close>

definition maximum :: "real list \<Rightarrow> real" where
  "maximum vs = (case vs of [] \<Rightarrow> 0 | v # rest \<Rightarrow> fold max rest v)"

text \<open>A max pooling: the border is left out of the window.\<close>

definition max_pooling2d :: "nat \<times> nat \<Rightarrow> padding \<Rightarrow> ndarray \<Rightarrow> error + ndarray" where
  "max_pooling2d ps p x =
     (case shape x of
        [N, h, w, ch] \<Rightarrow>
          bind_err (pool_out p (fst ps) h) (\<lambda>oh.
          bind_err (pool_out p (snd ps) w) (\<lambda>ow.
            Inr \<lparr>shape = [N, oh, ow, ch], dtype = dtype x,
                 data =
                   [maximum
                      (concat
                         [case at_pad x (pool_pad p (fst ps) h) (pool_pad p (snd ps) w) n
                                 (i * fst ps + di) (j * snd ps + dj) c
                          of None \<Rightarrow> [] | Some v \<Rightarrow> [v].
                          di \<leftarrow> [0 ..< fst ps], dj \<leftarrow> [0 ..< snd ps]]).
                    n \<leftarrow> [0 ..< N], i \<leftarrow> [0 ..< oh], j \<leftarrow> [0 ..< ow], c \<leftarrow> [0 ..< ch]]\<rparr>))
      | _ \<Rightarrow> Inl ValueError)"

text \<open>An upsampling: every row and column is repeated (nearest-neighbour interpolation).\<close>

definition up_sampling2d :: "nat \<times> nat \<Rightarrow> ndarray \<Rightarrow> error + ndarray" where
  "up_sampling2d ss x =
     (case shape x of
        [N, h, w, ch] \<Rightarrow>
          if fst ss = 0 \<or> snd ss = 0 then Inl ValueError
          else
            Inr \<lparr>shape = [N, h * fst ss, w * snd ss, ch], dtype = dtype x,
                 data =
                   [at4 x n (i div fst ss) (j div snd ss) c.
                    n \<leftarrow> [0 ..< N], i \<leftarrow> [0 ..< h * fst ss], j \<leftarrow> [0 ..< w * snd ss], c \<leftarrow> [0 ..< ch]]\<rparr>
      | _ \<Rightarrow> Inl ValueError)"

fun forward_layer :: "layer \<Rightarrow> conv_weights \<Rightarrow> ndarray \<Rightarrow> error + ndarray" where
  "forward_layer (Conv2D f ks act p) wts x = conv2d f ks act p wts x"
| "forward_layer (MaxPooling2D ps p) wts x = max_pooling2d ps p x"
| "forward_layer (UpSampling2D ss) wts x = up_sampling2d ss x"

text \<open>The layers in order; the layer at position \<open>k\<close> uses the parameters at \<open>k\<close>.\<close>

fun forward :: "layer list \<Rightarrow> params \<Rightarrow> nat \<Rightarrow> ndarray \<Rightarrow> error + ndarray" where
  "forward [] ws k x = Inr x"
| "forward (l # ls) ws k x = bind_err (forward_layer l (ws k) x) (forward ls ws (Suc k))"

text \<open>
  The arguments of \<^verbatim>\<open>compile\<close>: an optimizer given by name is created by the library
  with its default hyperparameters; an optimizer object carries the hyperparameters its
  constructor was given.
\<close>

datatype optimizer_arg = OptimizerName string | OptimizerObject string "(string \<times> real) list"

fun library_defaults :: "optimizer_arg \<Rightarrow> bool" where
  "library_defaults (OptimizerName _) = True"
| "library_defaults (OptimizerObject _ hyper) = (hyper = [])"

record compile_config =
  optimizer :: optimizer_arg
  loss :: string

record model =
  input_shape :: "nat list"
  layers :: "layer list"
  output_shape :: "nat list"
  weights :: params
  compiled :: "compile_config option"

text \<open>\<^verbatim>\<open>Model(inputs, outputs)\<close>, with the initial values the library gave the parameters.\<close>

definition Model :: "ktensor \<Rightarrow> ktensor \<Rightarrow> params \<Rightarrow> model" where
  "Model inp outp ws =
     \<lparr>input_shape = kshape inp, layers = history outp, output_shape = kshape outp,
      weights = ws, compiled = None\<rparr>"

text \<open>
  \<^verbatim>\<open>m.predict(x)\<close>: the batch must hold at least one sample, and samples of the model's
  input shape; it is converted to \<open>float32\<close> and passed through the layers. An empty
  batch is refused.
\<close>

definition predict :: "model \<Rightarrow> ndarray \<Rightarrow> error + ndarray" where
  "predict m x =
     (case shape x of
        [] \<Rightarrow> Inl ValueError
      | N # s \<Rightarrow>
          if N = 0 then Inl ValueError
          else if s = input_shape m then forward (layers m) (weights m) 0 (astype x Float32)
          else Inl ValueError)"

section \<open>The notebook\<close>

text \<open>
  What the notebook does to the outside, in order: calls of the plotting library, the
  printed model summary, the training run with its per-epoch reports, and files written.
\<close>

datatype callback = ModelCheckpoint string | OtherCallback string

record fit_args =
  fit_x :: ndarray
  fit_y :: ndarray
  epochs :: nat
  batch_size :: nat
  shuffle :: bool
  validation_data :: "(ndarray \<times> ndarray) option"
  callbacks :: "callback list"

datatype event =
    PltFigure "nat \<times> nat"
  | PltSubplot nat nat nat
  | PltImshow ndarray string
  | PltTitle string
  | PltAxis string
  | PltShow
  | Summary "layer list"
  | TrainBegin fit_args
  | EpochEnd nat
  | TrainEnd
  | SaveFile string

text \<open>
  What the libraries decide and the notebook does not: the samples the random generator
  draws, the initial parameters of a new model, and the parameters a training run ends
  with.
\<close>

record framework =
  normal :: "nat \<Rightarrow> real"
  initializer :: params
  optimize :: "compile_config \<Rightarrow> fit_args \<Rightarrow> params \<Rightarrow> params"

text \<open>
  The notebook's global variables (those read by a later statement), the position of the
  random generator and the effects so far. \<open>x_train\<close> and \<open>x_test\<close> hold the loader's
  arrays from line 40 on; a variable that is assigned later is \<open>None\<close> until then.
\<close>

record globals =
  x_train :: ndarray
  x_test :: ndarray
  x_train_noisy :: "ndarray option"
  x_test_noisy :: "ndarray option"
  autoencoder :: "model option"
  decoded_imgs :: "ndarray option"
  rng_pos :: nat
  effects :: "event list"

text \<open>A statement either raises, in the state it reached, or returns the next state.\<close>

type_synonym step = "globals \<Rightarrow> (error \<times> globals) + globals"

fun run_steps :: "step list \<Rightarrow> step" where
  "run_steps [] g = Inr g"
| "run_steps (f # fs) g = (case f g of Inl e \<Rightarrow> Inl e | Inr g' \<Rightarrow> run_steps fs g')"

text \<open>\<^verbatim>\<open>for i in range(n): body\<close>\<close>

definition for_range :: "nat \<Rightarrow> (nat \<Rightarrow> step) \<Rightarrow> step" where
  "for_range n body = run_steps (map body [0 ..< n])"

text \<open>The state a run stopped in, raised or not.\<close>

definition final :: "(error \<times> globals) + globals \<Rightarrow> globals" where
  "final r = (case r of Inl (e, g) \<Rightarrow> g | Inr g \<Rightarrow> g)"

text \<open>Reading a variable that may not be assigned yet.\<close>

definition var :: "(globals \<Rightarrow> 'a option) \<Rightarrow> globals \<Rightarrow> error + 'a" where
  "var v g = (case v g of None \<Rightarrow> Inl NameError | Some a \<Rightarrow> Inr a)"

text \<open>\<^verbatim>\<open>v = rhs\<close>: the right-hand side is evaluated, then stored.\<close>

definition assign :: "(globals \<Rightarrow> error + 'a) \<Rightarrow> ('a \<Rightarrow> globals \<Rightarrow> globals) \<Rightarrow> step" where
  "assign rhs store g = (case rhs g of Inl e \<Rightarrow> Inl (e, g) | Inr a \<Rightarrow> Inr (store a g))"

definition emit :: "event \<Rightarrow> step" where
  "emit ev g = Inr (g\<lparr>effects := effects g @ [ev]\<rparr>)"

subsection \<open>Preprocessing (lines 43 to 48)\<close>

definition preprocess :: step where
  "preprocess = run_steps
     [assign (\<lambda>g. Inr (div_scalar (astype (x_train g) Float32) 255)) (\<lambda>a g. g\<lparr>x_train := a\<rparr>),
      assign (\<lambda>g. Inr (div_scalar (astype (x_test g) Float32) 255)) (\<lambda>a g. g\<lparr>x_test := a\<rparr>),
      assign (\<lambda>g. bind_err (len (x_train g)) (\<lambda>k. reshape (x_train g) [k, 28, 28, 1]))
        (\<lambda>a g. g\<lparr>x_train := a\<rparr>),
      assign (\<lambda>g. bind_err (len (x_test g)) (\<lambda>k. reshape (x_test g) [k, 28, 28, 1]))
        (\<lambda>a g. g\<lparr>x_test := a\<rparr>)]"

subsection \<open>Noise (lines 51 to 57)\<close>

definition noise_factor :: real where
  "noise_factor = 0.5"

text \<open>
  \<^verbatim>\<open>v = x + noise_factor * np.random.normal(loc=0.0, scale=1.0, size=x.shape)\<close>: the
  generator advances when the samples are drawn, before the sum is formed and stored.
\<close>

definition add_noise :: "framework \<Rightarrow> (globals \<Rightarrow> ndarray) \<Rightarrow> (ndarray \<Rightarrow> globals \<Rightarrow> globals) \<Rightarrow> step" where
  "add_noise fw x store g =
     (case random_normal (normal fw) (rng_pos g) 0 1 (shape (x g)) of
        (noise, pos) \<Rightarrow>
          assign (\<lambda>g. add (x g) (scalar_mul noise_factor noise)) store (g\<lparr>rng_pos := pos\<rparr>))"

definition inject_noise :: "framework \<Rightarrow> step" where
  "inject_noise fw = run_steps
     [add_noise fw x_train (\<lambda>a g. g\<lparr>x_train_noisy := Some a\<rparr>),
      add_noise fw x_test (\<lambda>a g. g\<lparr>x_test_noisy := Some a\<rparr>),
      assign (\<lambda>g. bind_err (var x_train_noisy g) (\<lambda>a. Inr (clip a 0 1)))
        (\<lambda>a g. g\<lparr>x_train_noisy := Some a\<rparr>),
      assign (\<lambda>g. bind_err (var x_test_noisy g) (\<lambda>a. Inr (clip a 0 1)))
        (\<lambda>a g. g\<lparr>x_test_noisy := Some a\<rparr>)]"

subsection \<open>Plotting\<close>

text \<open>
  \<^verbatim>\<open>plt.subplot(nrows, ncols, index)\<close> selects a cell of the grid, counted from 1 along
  the rows; an index outside the grid is refused.
\<close>

definition plt_subplot :: "nat \<Rightarrow> nat \<Rightarrow> nat \<Rightarrow> step" where
  "plt_subplot nrows ncols k g =
     (if 1 \<le> k \<and> k \<le> nrows * ncols then emit (PltSubplot nrows ncols k) g
      else Inl (ValueError, g))"

text \<open>
  \<^verbatim>\<open>plt.imshow(img, cmap=c)\<close> draws an array into the selected cell: one of two
  dimensions, or of three with 3 or 4 colour channels.
\<close>

definition plt_imshow :: "(globals \<Rightarrow> error + ndarray) \<Rightarrow> string \<Rightarrow> step" where
  "plt_imshow img c g =
     (case img g of
        Inl e \<Rightarrow> Inl (e, g)
      | Inr a \<Rightarrow>
          if length (shape a) = 2 \<or> (length (shape a) = 3 \<and> last (shape a) \<in> {3, 4})
          then emit (PltImshow a c) g
          else Inl (TypeError, g))"

text \<open>\<^verbatim>\<open>v[i].reshape(28, 28)\<close>\<close>

definition sample_image :: "(globals \<Rightarrow> error + ndarray) \<Rightarrow> nat \<Rightarrow> globals \<Rightarrow> error + ndarray" where
  "sample_image v i g = bind_err (bind_err (v g) (\<lambda>a. getitem a i)) (\<lambda>s. reshape s [28, 28])"

text \<open>Lines 60 to 71: the clean test images above their noisy versions.\<close>

definition show_noisy :: step where
  "show_noisy =
     (let n = 10 in
      run_steps
        [emit (PltFigure (20, 4)),
         for_range n (\<lambda>i. run_steps
           [plt_subplot 2 n (i + 1),
            plt_imshow (sample_image (\<lambda>g. Inr (x_test g)) i) ''gray'',
            emit (PltTitle ''Original''),
            emit (PltAxis ''off''),
            plt_subplot 2 n (i + 1 + n),
            plt_imshow (sample_image (var x_test_noisy) i) ''gray'',
            emit (PltTitle ''Noisy''),
            emit (PltAxis ''off'')]),
         emit PltShow])"

text \<open>Lines 160 to 174: the noisy test images above the model's outputs for them.\<close>

definition show_denoised :: step where
  "show_denoised =
     (let n = 10 in
      run_steps
        [emit (PltFigure (20, 6)),
         for_range n (\<lambda>i. run_steps
           [plt_subplot 3 n (i + 1),
            plt_imshow (sample_image (var x_test_noisy) i) ''gray'',
            emit (PltTitle ''Noisy''),
            emit (PltAxis ''off''),
            plt_subplot 3 n (i + 1 + n),
            plt_imshow (sample_image (var decoded_imgs) i) ''gray'',
            emit (PltTitle ''Denoised''),
            emit (PltAxis ''off'')]),
         emit PltShow])"

subsection \<open>The model (lines 91 to 111)\<close>

definition autoencoder_graph :: "error + ktensor \<times> ktensor" where
  "autoencoder_graph =
     (let input_img = Input [28, 28, 1] in
      bind_err (call (Conv2D 32 (3, 3) Relu Same) input_img) (\<lambda>x.
      bind_err (call (MaxPooling2D (2, 2) Same) x) (\<lambda>x.
      bind_err (call (Conv2D 16 (3, 3) Relu Same) x) (\<lambda>x.
      bind_err (call (MaxPooling2D (2, 2) Same) x) (\<lambda>encoded.
      bind_err (call (Conv2D 16 (3, 3) Relu Same) encoded) (\<lambda>x.
      bind_err (call (UpSampling2D (2, 2)) x) (\<lambda>x.
      bind_err (call (Conv2D 32 (3, 3) Relu Same) x) (\<lambda>x.
      bind_err (call (UpSampling2D (2, 2)) x) (\<lambda>x.
      bind_err (call (Conv2D 1 (3, 3) Sigmoid Same) x) (\<lambda>decoded.
      Inr (input_img, decoded)))))))))))"

text \<open>\<^verbatim>\<open>m.compile(optimizer=opt, loss=l)\<close>\<close>

definition keras_compile :: "optimizer_arg \<Rightarrow> string \<Rightarrow> step" where
  "keras_compile opt l =
     assign (var autoencoder)
       (\<lambda>m g. g\<lparr>autoencoder := Some (m\<lparr>compiled := Some \<lparr>optimizer = opt, loss = l\<rparr>\<rparr>)\<rparr>)"

text \<open>\<^verbatim>\<open>m.summary()\<close>\<close>

definition keras_summary :: step where
  "keras_summary g =
     (case autoencoder g of None \<Rightarrow> Inl (NameError, g) | Some m \<Rightarrow> emit (Summary (layers m)) g)"

definition define_model :: "framework \<Rightarrow> step" where
  "define_model fw = run_steps
     [assign (\<lambda>g. bind_err autoencoder_graph (\<lambda>(inp, outp). Inr (Model inp outp (initializer fw))))
        (\<lambda>m g. g\<lparr>autoencoder := Some m\<rparr>),
      keras_compile (OptimizerName ''adam'') ''binary_crossentropy'',
      keras_summary]"

subsection \<open>Training and saving (lines 131 to 138)\<close>

text \<open>
  The inputs and targets of a training run must be non-empty batches of one length, of
  samples of the model's input and output shapes.
\<close>

definition fit_data_ok :: "model \<Rightarrow> ndarray \<Rightarrow> ndarray \<Rightarrow> bool" where
  "fit_data_ok m x y =
     (case (shape x, shape y) of
        (nx # sx, ny # sy) \<Rightarrow> nx = ny \<and> 0 < nx \<and> sx = input_shape m \<and> sy = output_shape m
      | _ \<Rightarrow> False)"

text \<open>What one epoch does to the outside: its report, then the files of its checkpoints.\<close>

definition epoch_events :: "callback list \<Rightarrow> nat \<Rightarrow> event list" where
  "epoch_events cbs k =
     EpochEnd k # concat (map (\<lambda>cb. case cb of ModelCheckpoint path \<Rightarrow> [SaveFile path] | _ \<Rightarrow> []) cbs)"

text \<open>
  \<^verbatim>\<open>m.fit(...)\<close>: the model must be compiled and the training data must fit it, or the
  call raises before anything is trained. The validation pair is first used at the end of
  the first epoch: if it does not fit the model, the run raises there, after the training
  of that epoch (the parameters are the ones one epoch leaves) and before its report and
  its checkpoints. Otherwise the run goes through the epochs and leaves the model with
  the parameters the optimizer found.
\<close>

definition keras_fit :: "framework \<Rightarrow> (globals \<Rightarrow> error + fit_args) \<Rightarrow> step" where
  "keras_fit fw args g =
     (case bind_err (var autoencoder g) (\<lambda>m. bind_err (args g) (\<lambda>a. Inr (m, a))) of
        Inl e \<Rightarrow> Inl (e, g)
      | Inr (m, a) \<Rightarrow>
          (case compiled m of
             None \<Rightarrow> Inl (RuntimeError, g)
           | Some cfg \<Rightarrow>
               if \<not> fit_data_ok m (fit_x a) (fit_y a) then Inl (ValueError, g)
               else if 0 < epochs a \<and>
                  (case validation_data a of None \<Rightarrow> False | Some (vx, vy) \<Rightarrow> \<not> fit_data_ok m vx vy)
               then Inl (ValueError,
                         g\<lparr>autoencoder :=
                             Some (m\<lparr>weights := optimize fw cfg (a\<lparr>epochs := 1\<rparr>) (weights m)\<rparr>),
                           effects := effects g @ [TrainBegin a]\<rparr>)
               else Inr (g\<lparr>autoencoder := Some (m\<lparr>weights := optimize fw cfg a (weights m)\<rparr>),
                           effects := effects g @ [TrainBegin a] @
                             concat (map (epoch_events (callbacks a)) [0 ..< epochs a]) @ [TrainEnd]\<rparr>)))"

text \<open>\<^verbatim>\<open>m.save(path)\<close>\<close>

definition keras_save :: "string \<Rightarrow> step" where
  "keras_save path g =
     (case autoencoder g of None \<Rightarrow> Inl (NameError, g) | Some m \<Rightarrow> emit (SaveFile path) g)"

definition train_and_save :: "framework \<Rightarrow> step" where
  "train_and_save fw = run_steps
     [keras_fit fw (\<lambda>g.
        bind_err (var x_train_noisy g) (\<lambda>xn.
        bind_err (var x_test_noisy g) (\<lambda>xt.
          Inr \<lparr>fit_x = xn, fit_y = x_train g, epochs = 10, batch_size = 128, shuffle = True,
               validation_data = Some (xt, x_test g), callbacks = []\<rparr>))),
      keras_save ''denoising_autoencoder.h5'']"

subsection \<open>Results (lines 158 to 174) and the whole run\<close>

definition denoise :: step where
  "denoise = run_steps
     [assign (\<lambda>g. bind_err (var autoencoder g) (\<lambda>m. bind_err (var x_test_noisy g) (predict m)))
        (\<lambda>a g. g\<lparr>decoded_imgs := Some a\<rparr>),
      show_denoised]"

text \<open>The state after line 40, given the arrays the loader returned.\<close>

definition loaded :: "ndarray \<Rightarrow> ndarray \<Rightarrow> globals" where
  "loaded raw_train raw_test =
     \<lparr>x_train = raw_train, x_test = raw_test, x_train_noisy = None, x_test_noisy = None,
      autoencoder = None, decoded_imgs = None, rng_pos = 0, effects = []\<rparr>"

text \<open>The four code cells, top to bottom.\<close>

definition notebook :: "framework \<Rightarrow> step" where
  "notebook fw = run_steps
     [run_steps [preprocess, inject_noise fw, show_noisy],
      define_model fw,
      train_and_save fw,
      denoise]"

section \<open>Notions used in the statements\<close>

text \<open>All elements of an array lie between two bounds.\<close>

definition values_in :: "ndarray \<Rightarrow> real \<Rightarrow> real \<Rightarrow> bool" where
  "values_in a lo hi \<longleftrightarrow> (\<forall>v \<in> set (data a). lo \<le> v \<and> v \<le> hi)"

text \<open>
  Two states agree on everything but \<open>x_train\<close> and \<open>x_test\<close>: the other variables, the
  position of the random generator and the effects.
\<close>

definition same_elsewhere :: "globals \<Rightarrow> globals \<Rightarrow> bool" where
  "same_elsewhere g g' \<longleftrightarrow>
     x_train_noisy g' = x_train_noisy g \<and> x_test_noisy g' = x_test_noisy g \<and>
     autoencoder g' = autoencoder g \<and> decoded_imgs g' = decoded_imgs g \<and>
     rng_pos g' = rng_pos g \<and> effects g' = effects g"

text \<open>What preprocessing hands on: the exception it raised, or the two batches.\<close>

definition outcome :: "(error \<times> globals) + globals \<Rightarrow> error + ndarray \<times> ndarray" where
  "outcome r = (case r of Inl (e, g) \<Rightarrow> Inl e | Inr g \<Rightarrow> Inr (x_train g, x_test g))"

text \<open>
  The array that lines 43 and 47 (44 and 48) leave in \<open>x_train\<close> (\<open>x_test\<close>) for a raw
  batch of 28 by 28 images; see \<open>preprocess_normalized\<close>.
\<close>

definition normalized :: "ndarray \<Rightarrow> ndarray" where
  "normalized a =
     \<lparr>shape = [hd (shape a), 28, 28, 1], dtype = Float32, data = map (\<lambda>v. v / 255) (data a)\<rparr>"

text \<open>
  The array that lines 52 and 56 (53 and 57) leave in \<open>x_train_noisy\<close> (\<open>x_test_noisy\<close>)
  when the generator stands at \<open>pos\<close>; see \<open>inject_noise_result\<close>.
\<close>

definition noisy :: "framework \<Rightarrow> nat \<Rightarrow> ndarray \<Rightarrow> ndarray" where
  "noisy fw pos x =
     \<lparr>shape = shape x, dtype = Float64,
      data = map (\<lambda>v. min (max v 0) 1)
               (map2 (\<lambda>u v. u + v) (data x)
                  (map (\<lambda>v. noise_factor * v)
                     (map (\<lambda>k. 0 + 1 * normal fw k) [pos ..< pos + prod_list (shape x)])))\<rparr>"

text \<open>
  The topology as the specification words it: a pooling is given by its window only, a
  convolution by filters, kernel, activation and padding.
\<close>

datatype spec_layer =
    SpecConv nat "nat \<times> nat" activation padding
  | SpecMaxPool "nat \<times> nat"
  | SpecUpsample "nat \<times> nat"

fun described_as :: "layer \<Rightarrow> spec_layer" where
  "described_as (Conv2D f ks act p) = SpecConv f ks act p"
| "described_as (MaxPooling2D ps p) = SpecMaxPool ps"
| "described_as (UpSampling2D ss) = SpecUpsample ss"

definition spec_encoder :: "spec_layer list" where
  "spec_encoder =
     [SpecConv 32 (3, 3) Relu Same, SpecMaxPool (2, 2), SpecConv 16 (3, 3) Relu Same, SpecMaxPool (2, 2)]"

definition spec_decoder :: "spec_layer list" where
  "spec_decoder =
     [SpecConv 16 (3, 3) Relu Same, SpecUpsample (2, 2), SpecConv 32 (3, 3) Relu Same,
      SpecUpsample (2, 2), SpecConv 1 (3, 3) Sigmoid Same]"

text \<open>The layers that the calls of lines 94 to 104 record; see \<open>autoencoder_graph_value\<close>.\<close>

definition autoencoder_layers :: "layer list" where
  "autoencoder_layers =
     [Conv2D 32 (3, 3) Relu Same, MaxPooling2D (2, 2) Same, Conv2D 16 (3, 3) Relu Same,
      MaxPooling2D (2, 2) Same, Conv2D 16 (3, 3) Relu Same, UpSampling2D (2, 2),
      Conv2D 32 (3, 3) Relu Same, UpSampling2D (2, 2), Conv2D 1 (3, 3) Sigmoid Same]"

text \<open>Sample \<open>i\<close> of a batch of 28 by 28 by 1 samples, as the 28 by 28 image that is drawn.\<close>

definition image_of :: "ndarray \<Rightarrow> nat \<Rightarrow> ndarray" where
  "image_of a i = \<lparr>shape = [28, 28], dtype = dtype a, data = take 784 (drop (i * 784) (data a))\<rparr>"

text \<open>
  The plotting calls of one pass through a plotting loop, on a grid of \<open>nrows\<close> rows and
  \<open>n\<close> columns: sample \<open>i\<close> of \<open>a\<close> goes to cell \<open>i + 1\<close> (row one), sample \<open>i\<close> of \<open>b\<close> to
  cell \<open>i + 1 + n\<close> (row two).
\<close>

definition pair_events :: "nat \<Rightarrow> nat \<Rightarrow> ndarray \<Rightarrow> string \<Rightarrow> ndarray \<Rightarrow> string \<Rightarrow> nat \<Rightarrow> event list" where
  "pair_events nrows n a ta b tb i =
     [PltSubplot nrows n (i + 1), PltImshow (image_of a i) ''gray'', PltTitle ta, PltAxis ''off'',
      PltSubplot nrows n (i + 1 + n), PltImshow (image_of b i) ''gray'', PltTitle tb, PltAxis ''off'']"

text \<open>
  The body the two plotting loops share, with what differs as parameters; see
  \<open>show_noisy_eq\<close> and \<open>show_denoised_eq\<close>.
\<close>

definition pair_body ::
  "nat \<Rightarrow> nat \<Rightarrow> (globals \<Rightarrow> error + ndarray) \<Rightarrow> string \<Rightarrow> (globals \<Rightarrow> error + ndarray) \<Rightarrow> string \<Rightarrow> nat \<Rightarrow> step" where
  "pair_body nrows n va ta vb tb i = run_steps
     [plt_subplot nrows n (i + 1),
      plt_imshow (sample_image va i) ''gray'',
      emit (PltTitle ta),
      emit (PltAxis ''off''),
      plt_subplot nrows n (i + 1 + n),
      plt_imshow (sample_image vb i) ''gray'',
      emit (PltTitle tb),
      emit (PltAxis ''off'')]"

text \<open>The arguments line 131 passes to \<^verbatim>\<open>fit\<close> in state \<open>g\<close>, and what a run of 10 epochs without callbacks shows.\<close>

definition training_args :: "globals \<Rightarrow> ndarray \<Rightarrow> ndarray \<Rightarrow> fit_args" where
  "training_args g xn xt =
     \<lparr>fit_x = xn, fit_y = x_train g, epochs = 10, batch_size = 128, shuffle = True,
      validation_data = Some (xt, x_test g), callbacks = []\<rparr>"

definition training_events :: "fit_args \<Rightarrow> event list" where
  "training_events a = [TrainBegin a] @ map EpochEnd [0 ..< 10] @ [TrainEnd]"

text \<open>The effects of a complete run up to the end of training; see \<open>notebook_run\<close>.\<close>

definition trace_until_trained :: "framework \<Rightarrow> ndarray \<Rightarrow> ndarray \<Rightarrow> event list" where
  "trace_until_trained fw raw_train raw_test =
     [PltFigure (20, 4)] @
     concat (map (pair_events 2 10 (normalized raw_test) ''Original''
                    (noisy fw (prod_list (shape raw_train)) (normalized raw_test)) ''Noisy'') [0 ..< 10]) @
     [PltShow, Summary autoencoder_layers] @
     training_events
       \<lparr>fit_x = noisy fw 0 (normalized raw_train), fit_y = normalized raw_train, epochs = 10,
        batch_size = 128, shuffle = True,
        validation_data = Some (noisy fw (prod_list (shape raw_train)) (normalized raw_test), normalized raw_test),
        callbacks = []\<rparr>"

text \<open>The paths of the files written, the training runs started and the epochs reported.\<close>

fun saves :: "event list \<Rightarrow> string list" where
  "saves [] = []"
| "saves (SaveFile path # evs) = path # saves evs"
| "saves (_ # evs) = saves evs"

fun trainings :: "event list \<Rightarrow> fit_args list" where
  "trainings [] = []"
| "trainings (TrainBegin a # evs) = a # trainings evs"
| "trainings (_ # evs) = trainings evs"

fun epochs_reported :: "event list \<Rightarrow> nat list" where
  "epochs_reported [] = []"
| "epochs_reported (EpochEnd k # evs) = k # epochs_reported evs"
| "epochs_reported (_ # evs) = epochs_reported evs"

text \<open>The effects before the first training run has ended (all of them if none ends).\<close>

definition until_trained :: "event list \<Rightarrow> event list" where
  "until_trained evs = takeWhile (\<lambda>e. e \<noteq> TrainEnd) evs"

text \<open>
  Effects without a file written or a training run; a statement is quiet when, raising or
  not, it only adds such effects.
\<close>

definition silent :: "event list \<Rightarrow> bool" where
  "silent evs \<longleftrightarrow> saves evs = [] \<and> trainings evs = [] \<and> TrainEnd \<notin> set evs"

definition quiet :: "step \<Rightarrow> bool" where
  "quiet f \<longleftrightarrow> (\<forall>g. \<exists>evs. effects (final (f g)) = effects g @ evs \<and> silent evs)"

section \<open>Example inputs\<close>

text \<open>
  A loader result with one white training image and ten black test images; libraries
  whose generator alternates between 3 and -3, whose initial parameters are zero and
  whose optimizer returns the parameters it was given.
\<close>

definition example_train :: ndarray where
  "example_train = \<lparr>shape = [1, 28, 28], dtype = UInt8, data = replicate 784 255\<rparr>"

definition example_test :: ndarray where
  "example_test = \<lparr>shape = [10, 28, 28], dtype = UInt8, data = replicate 7840 0\<rparr>"

definition example_framework :: framework where
  "example_framework =
     \<lparr>normal = (\<lambda>k. if even k then 3 else - 3),
      initializer = (\<lambda>k. (\<lambda>di dj ci u. 0, \<lambda>u. 0)),
      optimize = (\<lambda>cfg a ws. ws)\<rparr>"

text \<open>A state with small clean arrays, for the noise statements.\<close>

definition example_clean :: globals where
  "example_clean =
     loaded \<lparr>shape = [2], dtype = Float32, data = [1 / 4, 3 / 4]\<rparr>
            \<lparr>shape = [1], dtype = Float32, data = [1 / 2]\<rparr>"

text \<open>States whose batches hold one sample and ten samples, for the plots.\<close>

definition one_sample :: ndarray where
  "one_sample = \<lparr>shape = [1, 28, 28, 1], dtype = Float32, data = replicate 784 0\<rparr>"

definition one_sample_state :: globals where
  "one_sample_state =
     (loaded one_sample one_sample)\<lparr>x_test_noisy := Some one_sample, decoded_imgs := Some one_sample\<rparr>"

definition ten_samples :: ndarray where
  "ten_samples = \<lparr>shape = [10, 28, 28, 1], dtype = Float32, data = replicate 7840 0\<rparr>"

definition ten_samples_state :: globals where
  "ten_samples_state =
     (loaded ten_samples ten_samples)\<lparr>x_test_noisy := Some ten_samples, decoded_imgs := Some ten_samples\<rparr>"

section \<open>Properties\<close>

subsection \<open>Preprocessing\<close>

lemma bind_err_Inl [simp]: "bind_err (Inl e) f = Inl e"
  by (simp add: bind_err_def)

lemma bind_err_Inr [simp]: "bind_err (Inr v) f = f v"
  by (simp add: bind_err_def)

lemma preprocess_result:
  assumes "shape (x_train g) = [N, 28, 28]" and "shape (x_test g) = [M, 28, 28]"
  shows "preprocess g =
    Inr (g\<lparr>x_train := \<lparr>shape = [N, 28, 28, 1], dtype = Float32, data = map (\<lambda>v. v / 255) (data (x_train g))\<rparr>,
           x_test := \<lparr>shape = [M, 28, 28, 1], dtype = Float32, data = map (\<lambda>v. v / 255) (data (x_test g))\<rparr>\<rparr>)"
  using assms
  by (simp add: preprocess_def assign_def div_scalar_def astype_def len_def reshape_def)

text \<open>
  Claim C1. For raw batches of 28 by 28 images whose pixel values lie in [0, 255], the
  preprocessing statements succeed; every element of the result is the raw pixel divided
  by 255 and so lies in [0, 1], and the result has the shape (N, 28, 28, 1). This holds
  for the training batch and for the test batch.
\<close>

theorem preprocess_rescales_and_reshapes:
  assumes "shape (x_train g) = [N, 28, 28]" and "shape (x_test g) = [M, 28, 28]"
    and "values_in (x_train g) 0 255" and "values_in (x_test g) 0 255"
  shows "\<exists>g'. preprocess g = Inr g' \<and>
           shape (x_train g') = [N, 28, 28, 1] \<and> shape (x_test g') = [M, 28, 28, 1] \<and>
           data (x_train g') = map (\<lambda>v. v / 255) (data (x_train g)) \<and>
           data (x_test g') = map (\<lambda>v. v / 255) (data (x_test g)) \<and>
           values_in (x_train g') 0 1 \<and> values_in (x_test g') 0 1"
  using assms(3,4) unfolding preprocess_result[OF assms(1,2)]
  by (simp add: values_in_def)

theorem preprocess_rescales_and_reshapes_witness:
  "shape (x_train (loaded example_train example_test)) = [1, 28, 28] \<and>
   shape (x_test (loaded example_train example_test)) = [10, 28, 28] \<and>
   values_in (x_train (loaded example_train example_test)) 0 255 \<and>
   values_in (x_test (loaded example_train example_test)) 0 255 \<and>
   (\<exists>g'. preprocess (loaded example_train example_test) = Inr g' \<and>
           shape (x_train g') = [1, 28, 28, 1] \<and> shape (x_test g') = [10, 28, 28, 1] \<and>
           data (x_train g') = map (\<lambda>v. v / 255) (data (x_train (loaded example_train example_test))) \<and>
           data (x_test g') = map (\<lambda>v. v / 255) (data (x_test (loaded example_train example_test))) \<and>
           values_in (x_train g') 0 1 \<and> values_in (x_test g') 0 1)"
proof -
  let ?g = "loaded example_train example_test"
  have h1: "shape (x_train ?g) = [1, 28, 28]" and h2: "shape (x_test ?g) = [10, 28, 28]"
    by (simp_all add: loaded_def example_train_def example_test_def)
  have h3: "values_in (x_train ?g) 0 255" and h4: "values_in (x_test ?g) 0 255"
    by (simp_all add: loaded_def example_train_def example_test_def values_in_def)
  show ?thesis
    by (intro conjI h1 h2 h3 h4 preprocess_rescales_and_reshapes[OF h1 h2 h3 h4])
qed

lemma preprocess_cases:
  "preprocess g =
     (case len (x_train g) of
        Inl e \<Rightarrow> Inl (e, g\<lparr>x_train := div_scalar (astype (x_train g) Float32) 255,
                           x_test := div_scalar (astype (x_test g) Float32) 255\<rparr>)
      | Inr k \<Rightarrow>
          (case reshape (div_scalar (astype (x_train g) Float32) 255) [k, 28, 28, 1] of
             Inl e \<Rightarrow> Inl (e, g\<lparr>x_train := div_scalar (astype (x_train g) Float32) 255,
                                x_test := div_scalar (astype (x_test g) Float32) 255\<rparr>)
           | Inr a \<Rightarrow>
               (case len (x_test g) of
                  Inl e \<Rightarrow> Inl (e, g\<lparr>x_train := a, x_test := div_scalar (astype (x_test g) Float32) 255\<rparr>)
                | Inr m \<Rightarrow>
                    (case reshape (div_scalar (astype (x_test g) Float32) 255) [m, 28, 28, 1] of
                       Inl e \<Rightarrow> Inl (e, g\<lparr>x_train := a, x_test := div_scalar (astype (x_test g) Float32) 255\<rparr>)
                     | Inr b \<Rightarrow> Inr (g\<lparr>x_train := a, x_test := b\<rparr>)))))"
  by (simp add: preprocess_def assign_def len_def div_scalar_def astype_def split: sum.splits list.splits)

text \<open>
  Claim C8. Preprocessing is deterministic and free of side effects. Whether it
  raises or not, it leaves every variable other than \<open>x_train\<close> and \<open>x_test\<close>, the random
  generator and the effects as they were; and two runs from states that agree on
  \<open>x_train\<close> and \<open>x_test\<close>, however they differ elsewhere, raise the same exception or
  produce the same two batches.
\<close>

theorem preprocess_pure:
  "same_elsewhere g (final (preprocess g)) \<and>
   (x_train g1 = x_train g2 \<and> x_test g1 = x_test g2 \<longrightarrow>
      outcome (preprocess g1) = outcome (preprocess g2))"
  by (simp add: preprocess_cases same_elsewhere_def final_def outcome_def split: sum.splits)

theorem preprocess_pure_witness:
  "x_train (loaded example_train example_test) =
     x_train ((loaded example_train example_test)\<lparr>rng_pos := 7, effects := [PltShow]\<rparr>) \<and>
   x_test (loaded example_train example_test) =
     x_test ((loaded example_train example_test)\<lparr>rng_pos := 7, effects := [PltShow]\<rparr>) \<and>
   loaded example_train example_test \<noteq>
     (loaded example_train example_test)\<lparr>rng_pos := 7, effects := [PltShow]\<rparr> \<and>
   outcome (preprocess (loaded example_train example_test)) =
     Inr (\<lparr>shape = [1, 28, 28, 1], dtype = Float32, data = replicate 784 1\<rparr>,
          \<lparr>shape = [10, 28, 28, 1], dtype = Float32, data = replicate 7840 0\<rparr>) \<and>
   outcome (preprocess ((loaded example_train example_test)\<lparr>rng_pos := 7, effects := [PltShow]\<rparr>)) =
     Inr (\<lparr>shape = [1, 28, 28, 1], dtype = Float32, data = replicate 784 1\<rparr>,
          \<lparr>shape = [10, 28, 28, 1], dtype = Float32, data = replicate 7840 0\<rparr>) \<and>
   same_elsewhere (loaded example_train example_test) (final (preprocess (loaded example_train example_test)))"
proof -
  let ?g1 = "loaded example_train example_test"
  let ?g2 = "?g1\<lparr>rng_pos := 7, effects := [PltShow]\<rparr>"
  have h: "x_train ?g1 = x_train ?g2 \<and> x_test ?g1 = x_test ?g2"
    by simp
  have d: "?g1 \<noteq> ?g2"
  proof
    assume "?g1 = ?g2"
    then have "rng_pos ?g1 = rng_pos ?g2" by simp
    then show False by (simp add: loaded_def)
  qed
  have s1: "shape (x_train ?g1) = [1, 28, 28]" and s2: "shape (x_test ?g1) = [10, 28, 28]"
    by (simp_all add: loaded_def example_train_def example_test_def)
  have o: "outcome (preprocess ?g1) =
     Inr (\<lparr>shape = [1, 28, 28, 1], dtype = Float32, data = replicate 784 1\<rparr>,
          \<lparr>shape = [10, 28, 28, 1], dtype = Float32, data = replicate 7840 0\<rparr>)"
    unfolding preprocess_result[OF s1 s2]
    by (simp add: outcome_def loaded_def example_train_def example_test_def)
  have e: "outcome (preprocess ?g1) = outcome (preprocess ?g2)"
    and f: "same_elsewhere ?g1 (final (preprocess ?g1))"
    using preprocess_pure[of ?g1 ?g1 ?g2] h by blast+
  show ?thesis
    using h d o e f by simp
qed

lemma shape_normalized [simp]: "shape (normalized a) = [hd (shape a), 28, 28, 1]"
  by (simp add: normalized_def)

lemma dtype_normalized [simp]: "dtype (normalized a) = Float32"
  by (simp add: normalized_def)

lemma preprocess_normalized:
  assumes "shape (x_train g) = [N, 28, 28]" and "shape (x_test g) = [M, 28, 28]"
  shows "preprocess g = Inr (g\<lparr>x_train := normalized (x_train g), x_test := normalized (x_test g)\<rparr>)"
  using assms by (simp add: preprocess_result normalized_def)

subsection \<open>Noise\<close>

lemma result_type_Float64 [simp]: "result_type d Float64 = Float64"
  by (cases d) simp_all

lemma inject_noise_result:
  "inject_noise fw g =
     Inr (g\<lparr>rng_pos := rng_pos g + prod_list (shape (x_train g)) + prod_list (shape (x_test g)),
            x_train_noisy := Some (noisy fw (rng_pos g) (x_train g)),
            x_test_noisy := Some (noisy fw (rng_pos g + prod_list (shape (x_train g))) (x_test g))\<rparr>)"
  by (simp add: inject_noise_def add_noise_def random_normal_def assign_def add_def scalar_mul_def
      var_def clip_def noisy_def)

lemma shape_noisy [simp]: "shape (noisy fw pos x) = shape x"
  by (simp add: noisy_def)

lemma dtype_noisy [simp]: "dtype (noisy fw pos x) = Float64"
  by (simp add: noisy_def)

lemma noisy_nth:
  assumes "well_formed x" and "k < length (data x)"
  shows "data (noisy fw pos x) ! k = min (max (data x ! k + 0.5 * normal fw (pos + k)) 0) 1"
  using assms by (simp add: noisy_def well_formed_def noise_factor_def)

lemma noisy_length: "well_formed x \<Longrightarrow> length (data (noisy fw pos x)) = length (data x)"
  by (simp add: noisy_def well_formed_def)

lemma noisy_range: "values_in (noisy fw pos x) 0 1"
  by (auto simp add: noisy_def values_in_def)

text \<open>
  Claim C2. For every clean batch and every sequence of normal samples, noise
  injection succeeds and the noisy batch has the shape and the length of the clean one;
  its element \<open>k\<close> is the clean element \<open>k\<close> plus 0.5 times a sample, clipped to [0, 1].
  Every element has a sample of its own: element \<open>k\<close> of the training batch takes the
  sample \<open>k\<close> places after the generator's position, the test batch those that follow.
\<close>

theorem noise_injector_formula:
  assumes "well_formed (x_train g)" and "well_formed (x_test g)"
  shows "\<exists>g' a b. inject_noise fw g = Inr g' \<and>
     x_train_noisy g' = Some a \<and> x_test_noisy g' = Some b \<and>
     shape a = shape (x_train g) \<and> shape b = shape (x_test g) \<and>
     length (data a) = length (data (x_train g)) \<and> length (data b) = length (data (x_test g)) \<and>
     (\<forall>k < length (data (x_train g)).
        data a ! k = min (max (data (x_train g) ! k + 0.5 * normal fw (rng_pos g + k)) 0) 1) \<and>
     (\<forall>k < length (data (x_test g)).
        data b ! k = min (max (data (x_test g) ! k
                       + 0.5 * normal fw (rng_pos g + length (data (x_train g)) + k)) 0) 1)"
proof -
  have n: "prod_list (shape (x_train g)) = length (data (x_train g))"
    using assms(1) by (simp add: well_formed_def)
  show ?thesis
    unfolding inject_noise_result
    using assms by (simp add: noisy_nth noisy_length n)
qed

theorem noise_injector_formula_witness:
  "well_formed (x_train example_clean) \<and> well_formed (x_test example_clean) \<and>
   (\<exists>g' a b. inject_noise example_framework example_clean = Inr g' \<and>
     x_train_noisy g' = Some a \<and> x_test_noisy g' = Some b \<and>
     shape a = shape (x_train example_clean) \<and> shape b = shape (x_test example_clean) \<and>
     length (data a) = length (data (x_train example_clean)) \<and>
     length (data b) = length (data (x_test example_clean)) \<and>
     (\<forall>k < length (data (x_train example_clean)).
        data a ! k = min (max (data (x_train example_clean) ! k
                       + 0.5 * normal example_framework (rng_pos example_clean + k)) 0) 1) \<and>
     (\<forall>k < length (data (x_test example_clean)).
        data b ! k = min (max (data (x_test example_clean) ! k
                       + 0.5 * normal example_framework
                           (rng_pos example_clean + length (data (x_train example_clean)) + k)) 0) 1))"
proof -
  have h1: "well_formed (x_train example_clean)" and h2: "well_formed (x_test example_clean)"
    by (simp_all add: example_clean_def loaded_def well_formed_def)
  show ?thesis
    by (intro conjI h1 h2 noise_injector_formula[OF h1 h2])
qed

text \<open>
  Claim C3. After noise injection every element of the noisy training batch and of
  the noisy test batch lies in [0, 1], whatever the clean batches and the samples drawn.
\<close>

theorem noisy_values_clipped:
  "\<exists>g' a b. inject_noise fw g = Inr g' \<and> x_train_noisy g' = Some a \<and> x_test_noisy g' = Some b \<and>
     values_in a 0 1 \<and> values_in b 0 1"
  unfolding inject_noise_result by (simp add: noisy_range)

theorem noisy_values_clipped_witness:
  "1 < 1 / 4 + noise_factor * normal example_framework 0 \<and>
   3 / 4 + noise_factor * normal example_framework 1 < 0 \<and>
   (\<exists>g' a b. inject_noise example_framework example_clean = Inr g' \<and>
      x_train_noisy g' = Some a \<and> x_test_noisy g' = Some b \<and> values_in a 0 1 \<and> values_in b 0 1 \<and>
      data a = [1, 0] \<and> data b = [1])"
proof -
  obtain g' a b where r: "inject_noise example_framework example_clean = Inr g'"
      "x_train_noisy g' = Some a" "x_test_noisy g' = Some b" "values_in a 0 1" "values_in b 0 1"
    using noisy_values_clipped[of example_framework example_clean] by blast
  have "data a = [1, 0] \<and> data b = [1]"
    using r(1,2,3)
    by (auto simp add: inject_noise_result example_clean_def loaded_def noisy_def
        example_framework_def noise_factor_def upt_rec)
  then show ?thesis
    using r by (auto simp add: example_framework_def noise_factor_def)
qed

subsection \<open>The model\<close>

lemma autoencoder_graph_value:
  "autoencoder_graph =
     Inr (\<lparr>kshape = [28, 28, 1], history = []\<rparr>, \<lparr>kshape = [28, 28, 1], history = autoencoder_layers\<rparr>)"
  by (simp add: autoencoder_graph_def Input_def call_def conv_out_def pool_out_def autoencoder_layers_def)

lemma define_model_result:
  "define_model fw g =
     Inr (g\<lparr>autoencoder := Some \<lparr>input_shape = [28, 28, 1], layers = autoencoder_layers,
                                  output_shape = [28, 28, 1], weights = initializer fw,
                                  compiled = Some \<lparr>optimizer = OptimizerName ''adam'',
                                                   loss = ''binary_crossentropy''\<rparr>\<rparr>,
            effects := effects g @ [Summary autoencoder_layers]\<rparr>)"
  by (simp add: define_model_def autoencoder_graph_value assign_def Model_def keras_compile_def
      var_def keras_summary_def emit_def)

text \<open>
  Claim C4. In every state and with every library behaviour, the model that lines 91
  to 108 define takes 28 by 28 by 1 inputs and its layers, in order, are the encoder and
  then the decoder of the specification, with no other layer.
\<close>

theorem autoencoder_topology:
  "\<exists>g' m. define_model fw g = Inr g' \<and> autoencoder g' = Some m \<and> input_shape m = [28, 28, 1] \<and>
     map described_as (layers m) = spec_encoder @ spec_decoder"
  unfolding define_model_result
  by (simp add: autoencoder_layers_def spec_encoder_def spec_decoder_def)

lemma length_concat_map_const:
  "(\<And>x. x \<in> set xs \<Longrightarrow> length (f x) = m) \<Longrightarrow> length (concat (map f xs)) = length xs * m"
  by (induction xs) simp_all

lemma length_grid4:
  "length (concat (map (\<lambda>n. concat (map (\<lambda>i. concat (map (\<lambda>j. map (e n i j) [0 ..< d]) [0 ..< c])) [0 ..< b])) [0 ..< a]))
     = a * (b * (c * d))"
  by (simp add: length_concat_map_const)

lemma sigmoid_range: "0 \<le> activate Sigmoid v \<and> activate Sigmoid v \<le> 1"
proof -
  have "0 < exp (- v)" by simp
  then show ?thesis by (simp add: divide_le_eq add_pos_pos)
qed

lemma conv2d_same:
  assumes "shape x = [N, h, w, c]" and "0 < fst ks" and "0 < snd ks"
  shows "\<exists>y. conv2d f ks act Same wts x = Inr y \<and> shape y = [N, h, w, f] \<and> well_formed y \<and>
           (act = Sigmoid \<longrightarrow> values_in y 0 1)"
  using assms
  by (auto simp add: conv2d_def conv_out_def well_formed_def length_grid4 values_in_def sigmoid_range
      simp del: activate.simps)

lemma max_pooling2d_same:
  assumes "shape x = [N, h, w, c]" and "0 < fst ps" and "0 < snd ps"
  shows "\<exists>y. max_pooling2d ps Same x = Inr y \<and>
           shape y = [N, (h + fst ps - 1) div fst ps, (w + snd ps - 1) div snd ps, c] \<and> well_formed y"
  using assms
  by (simp add: max_pooling2d_def pool_out_def well_formed_def length_grid4)

lemma up_sampling2d_shape:
  assumes "shape x = [N, h, w, c]" and "0 < fst ss" and "0 < snd ss"
  shows "\<exists>y. up_sampling2d ss x = Inr y \<and> shape y = [N, h * fst ss, w * snd ss, c] \<and> well_formed y"
  using assms
  by (simp add: up_sampling2d_def well_formed_def length_grid4)

lemma forward_autoencoder:
  assumes "shape x = [N, 28, 28, 1]"
  shows "\<exists>y. forward autoencoder_layers ws k x = Inr y \<and> shape y = [N, 28, 28, 1] \<and>
           well_formed y \<and> values_in y 0 1"
proof -
  obtain y1 where y1: "conv2d 32 (3, 3) Relu Same (ws k) x = Inr y1" "shape y1 = [N, 28, 28, 32]"
    using conv2d_same[OF assms, of "(3, 3)" 32 Relu "ws k"] by auto
  obtain y2 where y2: "max_pooling2d (2, 2) Same y1 = Inr y2" "shape y2 = [N, 14, 14, 32]"
    using max_pooling2d_same[OF y1(2), of "(2, 2)"] by auto
  obtain y3 where y3: "conv2d 16 (3, 3) Relu Same (ws (Suc (Suc k))) y2 = Inr y3" "shape y3 = [N, 14, 14, 16]"
    using conv2d_same[OF y2(2), of "(3, 3)" 16 Relu "ws (Suc (Suc k))"] by auto
  obtain y4 where y4: "max_pooling2d (2, 2) Same y3 = Inr y4" "shape y4 = [N, 7, 7, 16]"
    using max_pooling2d_same[OF y3(2), of "(2, 2)"] by auto
  obtain y5 where y5: "conv2d 16 (3, 3) Relu Same (ws (Suc (Suc (Suc (Suc k))))) y4 = Inr y5"
      "shape y5 = [N, 7, 7, 16]"
    using conv2d_same[OF y4(2), of "(3, 3)" 16 Relu "ws (Suc (Suc (Suc (Suc k))))"] by auto
  obtain y6 where y6: "up_sampling2d (2, 2) y5 = Inr y6" "shape y6 = [N, 14, 14, 16]"
    using up_sampling2d_shape[OF y5(2), of "(2, 2)"] by auto
  obtain y7 where y7: "conv2d 32 (3, 3) Relu Same (ws (Suc (Suc (Suc (Suc (Suc (Suc k))))))) y6 = Inr y7"
      "shape y7 = [N, 14, 14, 32]"
    using conv2d_same[OF y6(2), of "(3, 3)" 32 Relu "ws (Suc (Suc (Suc (Suc (Suc (Suc k))))))"] by auto
  obtain y8 where y8: "up_sampling2d (2, 2) y7 = Inr y8" "shape y8 = [N, 28, 28, 32]"
    using up_sampling2d_shape[OF y7(2), of "(2, 2)"] by auto
  obtain y9 where y9:
      "conv2d 1 (3, 3) Sigmoid Same (ws (Suc (Suc (Suc (Suc (Suc (Suc (Suc (Suc k))))))))) y8 = Inr y9"
      "shape y9 = [N, 28, 28, 1]" "well_formed y9" "values_in y9 0 1"
    using conv2d_same[OF y8(2), of "(3, 3)" 1 Sigmoid "ws (Suc (Suc (Suc (Suc (Suc (Suc (Suc (Suc k))))))))"] by auto
  show ?thesis
    using y9 by (simp add: autoencoder_layers_def y1 y2 y3 y4 y5 y6 y7 y8)
qed



subsection \<open>The plots\<close>

lemma run_steps_append:
  "run_steps (fs @ hs) g = (case run_steps fs g of Inl e \<Rightarrow> Inl e | Inr g' \<Rightarrow> run_steps hs g')"
  by (induction fs arbitrary: g) (simp_all split: sum.splits)

lemma run_steps_Inr: "f g = Inr g' \<Longrightarrow> run_steps fs g' = r \<Longrightarrow> run_steps (f # fs) g = r"
  by simp

lemma run_steps_Inl: "f g = Inl r \<Longrightarrow> run_steps (f # fs) g = Inl r"
  by simp

lemma sample_image_ok:
  assumes "v g = Inr a" and "shape a = [k, 28, 28, 1]" and "i < k"
  shows "sample_image v i g = Inr (image_of a i)"
  using assms by (simp add: sample_image_def getitem_def reshape_def image_of_def)

lemma sample_image_out_of_range:
  assumes "v g = Inr a" and "shape a = k # rest" and "k \<le> i"
  shows "sample_image v i g = Inl IndexError"
  using assms by (simp add: sample_image_def getitem_def)

lemma pair_body_ok:
  assumes "\<And>evs. va (g\<lparr>effects := evs\<rparr>) = Inr a" and "shape a = [ka, 28, 28, 1]" and "i < ka"
    and "\<And>evs. vb (g\<lparr>effects := evs\<rparr>) = Inr b" and "shape b = [kb, 28, 28, 1]" and "i < kb"
    and "i + 1 + n \<le> nrows * n"
  shows "pair_body nrows n va ta vb tb i g = Inr (g\<lparr>effects := effects g @ pair_events nrows n a ta b tb i\<rparr>)"
proof -
  have a: "sample_image va i (g\<lparr>effects := evs\<rparr>) = Inr (image_of a i)" for evs
    using sample_image_ok[of va "g\<lparr>effects := evs\<rparr>" a ka i] assms(1,2,3) by simp
  have b: "sample_image vb i (g\<lparr>effects := evs\<rparr>) = Inr (image_of b i)" for evs
    using sample_image_ok[of vb "g\<lparr>effects := evs\<rparr>" b kb i] assms(4,5,6) by simp
  show ?thesis
    using assms(7)
    by (simp add: pair_body_def plt_subplot_def plt_imshow_def emit_def a b pair_events_def image_of_def)
qed

lemma pairs_loop_ok:
  assumes "\<And>evs. va (g\<lparr>effects := evs\<rparr>) = Inr a" and "shape a = [ka, 28, 28, 1]"
    and "\<And>evs. vb (g\<lparr>effects := evs\<rparr>) = Inr b" and "shape b = [kb, 28, 28, 1]"
    and "m \<le> ka" and "m \<le> kb" and "m + n \<le> nrows * n"
  shows "for_range m (pair_body nrows n va ta vb tb) g =
           Inr (g\<lparr>effects := effects g @ concat (map (pair_events nrows n a ta b tb) [0 ..< m])\<rparr>)"
  using assms(5,6,7)
proof (induction m)
  case 0
  then show ?case by (simp add: for_range_def)
next
  case (Suc m)
  have prev: "for_range m (pair_body nrows n va ta vb tb) g =
           Inr (g\<lparr>effects := effects g @ concat (map (pair_events nrows n a ta b tb) [0 ..< m])\<rparr>)"
    using Suc by simp
  let ?g = "g\<lparr>effects := effects g @ concat (map (pair_events nrows n a ta b tb) [0 ..< m])\<rparr>"
  have body: "pair_body nrows n va ta vb tb m ?g = Inr (?g\<lparr>effects := effects ?g @ pair_events nrows n a ta b tb m\<rparr>)"
    using Suc.prems assms(1,2,3,4) by (intro pair_body_ok[where ka = ka and kb = kb]) simp_all
  show ?case
    using prev body by (simp add: for_range_def run_steps_append)
qed

lemma show_noisy_eq:
  "show_noisy = run_steps
     [emit (PltFigure (20, 4)),
      for_range 10 (pair_body 2 10 (\<lambda>g. Inr (x_test g)) ''Original'' (var x_test_noisy) ''Noisy''),
      emit PltShow]"
  by (simp add: show_noisy_def pair_body_def[abs_def])

lemma show_denoised_eq:
  "show_denoised = run_steps
     [emit (PltFigure (20, 6)),
      for_range 10 (pair_body 3 10 (var x_test_noisy) ''Noisy'' (var decoded_imgs) ''Denoised''),
      emit PltShow]"
  by (simp add: show_denoised_def pair_body_def[abs_def])

lemma show_noisy_result:
  assumes "shape (x_test g) = [ka, 28, 28, 1]" and "x_test_noisy g = Some b" and "shape b = [kb, 28, 28, 1]"
    and "10 \<le> ka" and "10 \<le> kb"
  shows "show_noisy g =
     Inr (g\<lparr>effects := effects g @ [PltFigure (20, 4)] @
            concat (map (pair_events 2 10 (x_test g) ''Original'' b ''Noisy'') [0 ..< 10]) @ [PltShow]\<rparr>)"
proof -
  let ?g = "g\<lparr>effects := effects g @ [PltFigure (20, 4)]\<rparr>"
  have "for_range 10 (pair_body 2 10 (\<lambda>g. Inr (x_test g)) ''Original'' (var x_test_noisy) ''Noisy'') ?g =
      Inr (?g\<lparr>effects := effects ?g @ concat (map (pair_events 2 10 (x_test g) ''Original'' b ''Noisy'') [0 ..< 10])\<rparr>)"
    using assms by (intro pairs_loop_ok[where ka = ka and kb = kb]) (simp_all add: var_def)
  then show ?thesis
    by (simp add: show_noisy_eq emit_def)
qed

lemma show_denoised_result:
  assumes "x_test_noisy g = Some a" and "shape a = [ka, 28, 28, 1]"
    and "decoded_imgs g = Some b" and "shape b = [kb, 28, 28, 1]"
    and "10 \<le> ka" and "10 \<le> kb"
  shows "show_denoised g =
     Inr (g\<lparr>effects := effects g @ [PltFigure (20, 6)] @
            concat (map (pair_events 3 10 a ''Noisy'' b ''Denoised'') [0 ..< 10]) @ [PltShow]\<rparr>)"
proof -
  let ?g = "g\<lparr>effects := effects g @ [PltFigure (20, 6)]\<rparr>"
  have "for_range 10 (pair_body 3 10 (var x_test_noisy) ''Noisy'' (var decoded_imgs) ''Denoised'') ?g =
      Inr (?g\<lparr>effects := effects ?g @ concat (map (pair_events 3 10 a ''Noisy'' b ''Denoised'') [0 ..< 10])\<rparr>)"
    using assms by (intro pairs_loop_ok[where ka = ka and kb = kb]) (simp_all add: var_def)
  then show ?thesis
    by (simp add: show_denoised_eq emit_def)
qed

text \<open>
  Claim C9, amended. When each batch holds at least 10 samples of 28 by 28 by 1
  elements, the final plot draws the first 10 pairs on a grid of 3 rows and 10 columns:
  noisy image \<open>i\<close> in cell \<open>i + 1\<close>, the model's output for it in cell \<open>i + 11\<close>, and
  nothing in the third row. The plot before training draws the first 10 pairs on a grid
  of 2 rows and 10 columns in the same way.
\<close>

theorem visualization_grids:
  assumes "shape (x_test g) = [kc, 28, 28, 1]" and "10 \<le> kc"
    and "x_test_noisy g = Some a" and "shape a = [ka, 28, 28, 1]" and "10 \<le> ka"
    and "decoded_imgs g = Some b" and "shape b = [kb, 28, 28, 1]" and "10 \<le> kb"
  shows "show_denoised g =
           Inr (g\<lparr>effects := effects g @ [PltFigure (20, 6)] @
                  concat (map (pair_events 3 10 a ''Noisy'' b ''Denoised'') [0 ..< 10]) @ [PltShow]\<rparr>) \<and>
         show_noisy g =
           Inr (g\<lparr>effects := effects g @ [PltFigure (20, 4)] @
                  concat (map (pair_events 2 10 (x_test g) ''Original'' a ''Noisy'') [0 ..< 10]) @ [PltShow]\<rparr>)"
  using show_denoised_result[OF assms(3,4,6,7,5,8)] show_noisy_result[OF assms(1,3,4,2,5)]
  by simp

theorem visualization_grids_witness:
  "shape (x_test ten_samples_state) = [10, 28, 28, 1] \<and> (10::nat) \<le> 10 \<and>
   x_test_noisy ten_samples_state = Some ten_samples \<and> shape ten_samples = [10, 28, 28, 1] \<and>
   decoded_imgs ten_samples_state = Some ten_samples \<and>
   show_denoised ten_samples_state =
     Inr (ten_samples_state\<lparr>effects := effects ten_samples_state @ [PltFigure (20, 6)] @
            concat (map (pair_events 3 10 ten_samples ''Noisy'' ten_samples ''Denoised'') [0 ..< 10]) @ [PltShow]\<rparr>) \<and>
   show_noisy ten_samples_state =
     Inr (ten_samples_state\<lparr>effects := effects ten_samples_state @ [PltFigure (20, 4)] @
            concat (map (pair_events 2 10 (x_test ten_samples_state) ''Original'' ten_samples ''Noisy'') [0 ..< 10]) @ [PltShow]\<rparr>)"
proof -
  have h1: "shape (x_test ten_samples_state) = [10, 28, 28, 1]"
    and h2: "x_test_noisy ten_samples_state = Some ten_samples"
    and h3: "shape ten_samples = [10, 28, 28, 1]"
    and h4: "decoded_imgs ten_samples_state = Some ten_samples"
    by (simp_all add: ten_samples_state_def ten_samples_def loaded_def)
  have h5: "(10::nat) \<le> 10" by simp
  show ?thesis
    using visualization_grids[OF h1 h5 h2 h3 h5 h4 h3 h5] h1 h2 h3 h4 by simp
qed

text \<open>
  Claim C9 as stated fails on batches of equal sample count below 10: with one
  sample in each batch the final plot raises \<open>IndexError\<close> in its second pass.
\<close>

theorem visualization_short_batch_counterexample:
  "hd (shape one_sample) = 1 \<and>
   x_test_noisy one_sample_state = Some one_sample \<and> decoded_imgs one_sample_state = Some one_sample \<and>
   map_sum fst effects (show_denoised one_sample_state) = Inl IndexError"
proof -
  let ?g = "one_sample_state\<lparr>effects := effects one_sample_state @ [PltFigure (20, 6)]\<rparr>"
  let ?body = "pair_body 3 10 (var x_test_noisy) ''Noisy'' (var decoded_imgs) ''Denoised''"
  have first: "?body 0 ?g = Inr (?g\<lparr>effects := effects ?g @ pair_events 3 10 one_sample ''Noisy'' one_sample ''Denoised'' 0\<rparr>)"
    by (rule pair_body_ok[where ka = 1 and kb = 1])
       (simp_all add: one_sample_state_def one_sample_def var_def)
  let ?g1 = "?g\<lparr>effects := effects ?g @ pair_events 3 10 one_sample ''Noisy'' one_sample ''Denoised'' 0\<rparr>"
  have "sample_image (var x_test_noisy) 1 (?g1\<lparr>effects := evs\<rparr>) = Inl IndexError" for evs
    by (rule sample_image_out_of_range[where a = one_sample and k = 1])
       (simp_all add: one_sample_state_def one_sample_def var_def)
  then have "\<exists>g'. ?body 1 ?g1 = Inl (IndexError, g')"
    by (simp add: pair_body_def plt_subplot_def plt_imshow_def emit_def)
  then obtain g2 where second: "?body 1 ?g1 = Inl (IndexError, g2)"
    by blast
  have upt: "[0 ..< 10] = 0 # 1 # [2 ..< 10]"
    by (simp add: upt_rec)
  have "for_range 10 ?body ?g = Inl (IndexError, g2)"
    unfolding for_range_def upt list.map
    by (rule run_steps_Inr, rule first, rule run_steps_Inl, rule second)
  then have "show_denoised one_sample_state = Inl (IndexError, g2)"
    by (simp add: show_denoised_eq emit_def)
  then have "map_sum fst effects (show_denoised one_sample_state) = Inl IndexError"
    by simp
  then show ?thesis
    by (simp add: one_sample_state_def one_sample_def)
qed

subsection \<open>A complete run\<close>

lemma epoch_events_no_callbacks: "epoch_events [] = (\<lambda>k. [EpochEnd k])"
  by (rule ext) (simp add: epoch_events_def)

lemma train_and_save_result:
  assumes "autoencoder g = Some m" and "compiled m = Some cfg"
    and "x_train_noisy g = Some xn" and "x_test_noisy g = Some xt"
    and "fit_data_ok m xn (x_train g)" and "fit_data_ok m xt (x_test g)"
  shows "train_and_save fw g =
     Inr (g\<lparr>autoencoder := Some (m\<lparr>weights := optimize fw cfg (training_args g xn xt) (weights m)\<rparr>),
            effects := effects g @ training_events (training_args g xn xt) @
                         [SaveFile ''denoising_autoencoder.h5'']\<rparr>)"
  using assms
  by (simp add: train_and_save_def keras_fit_def var_def keras_save_def emit_def training_args_def
      training_events_def epoch_events_no_callbacks)

lemma denoise_result:
  assumes "autoencoder g = Some m" and "x_test_noisy g = Some xt" and "predict m xt = Inr y"
    and "shape xt = [ka, 28, 28, 1]" and "shape y = [kb, 28, 28, 1]" and "10 \<le> ka" and "10 \<le> kb"
  shows "denoise g =
     Inr (g\<lparr>decoded_imgs := Some y,
            effects := effects g @ [PltFigure (20, 6)] @
              concat (map (pair_events 3 10 xt ''Noisy'' y ''Denoised'') [0 ..< 10]) @ [PltShow]\<rparr>)"
proof -
  let ?g = "g\<lparr>decoded_imgs := Some y\<rparr>"
  have "show_denoised ?g =
     Inr (?g\<lparr>effects := effects ?g @ [PltFigure (20, 6)] @
            concat (map (pair_events 3 10 xt ''Noisy'' y ''Denoised'') [0 ..< 10]) @ [PltShow]\<rparr>)"
    using assms by (intro show_denoised_result[where ka = ka and kb = kb]) simp_all
  then show ?thesis
    using assms(1,2,3) by (simp add: denoise_def assign_def var_def)
qed

lemma notebook_run:
  assumes "shape raw_train = [N, 28, 28]" and "0 < N" and "shape raw_test = [M, 28, 28]" and "10 \<le> M"
  shows "\<exists>g' m y. notebook fw (loaded raw_train raw_test) = Inr g' \<and>
     x_train g' = normalized raw_train \<and> x_test g' = normalized raw_test \<and>
     x_train_noisy g' = Some (noisy fw 0 (normalized raw_train)) \<and>
     x_test_noisy g' = Some (noisy fw (prod_list (shape raw_train)) (normalized raw_test)) \<and>
     autoencoder g' = Some m \<and> layers m = autoencoder_layers \<and>
     compiled m = Some \<lparr>optimizer = OptimizerName ''adam'', loss = ''binary_crossentropy''\<rparr> \<and>
     decoded_imgs g' = Some y \<and>
     predict m (noisy fw (prod_list (shape raw_train)) (normalized raw_test)) = Inr y \<and>
     shape y = [M, 28, 28, 1] \<and>
     effects g' = trace_until_trained fw raw_train raw_test @ [SaveFile ''denoising_autoencoder.h5''] @
        [PltFigure (20, 6)] @
        concat (map (pair_events 3 10 (noisy fw (prod_list (shape raw_train)) (normalized raw_test)) ''Noisy''
                       y ''Denoised'') [0 ..< 10]) @ [PltShow]"
proof -
  let ?g0 = "loaded raw_train raw_test"
  let ?xt = "noisy fw (prod_list (shape raw_train)) (normalized raw_test)"
  let ?xn = "noisy fw 0 (normalized raw_train)"
  have size_train: "prod_list (shape (normalized raw_train)) = prod_list (shape raw_train)"
    using assms(1) by (simp add: normalized_def)
  have g1: "preprocess ?g0 = Inr (?g0\<lparr>x_train := normalized raw_train, x_test := normalized raw_test\<rparr>)"
    using preprocess_normalized[of ?g0 N M] assms(1,3) by (simp add: loaded_def)
  let ?g1 = "?g0\<lparr>x_train := normalized raw_train, x_test := normalized raw_test\<rparr>"
  let ?g2 = "?g1\<lparr>rng_pos := prod_list (shape raw_train) + prod_list (shape (normalized raw_test)),
                  x_train_noisy := Some ?xn, x_test_noisy := Some ?xt\<rparr>"
  have g2: "inject_noise fw ?g1 = Inr ?g2"
    using assms(1,3) by (simp add: inject_noise_result loaded_def)
  let ?e3 = "[PltFigure (20, 4)] @
     concat (map (pair_events 2 10 (normalized raw_test) ''Original'' ?xt ''Noisy'') [0 ..< 10]) @ [PltShow]"
  let ?g3 = "?g2\<lparr>effects := ?e3\<rparr>"
  have g3: "show_noisy ?g2 = Inr ?g3"
    using show_noisy_result[of ?g2 M ?xt M] assms(3,4)
    by (simp add: loaded_def)
  let ?m = "\<lparr>input_shape = [28, 28, 1], layers = autoencoder_layers,
             output_shape = [28, 28, 1], weights = initializer fw,
             compiled = Some \<lparr>optimizer = OptimizerName ''adam'', loss = ''binary_crossentropy''\<rparr>\<rparr>"
  let ?g4 = "?g3\<lparr>autoencoder := Some ?m, effects := ?e3 @ [Summary autoencoder_layers]\<rparr>"
  have g4: "define_model fw ?g3 = Inr ?g4"
    by (simp add: define_model_result)
  let ?args = "training_args ?g4 ?xn ?xt"
  let ?m' = "?m\<lparr>weights := optimize fw \<lparr>optimizer = OptimizerName ''adam'', loss = ''binary_crossentropy''\<rparr>
                 ?args (initializer fw)\<rparr>"
  let ?g5 = "?g4\<lparr>autoencoder := Some ?m',
               effects := effects ?g4 @ training_events ?args @ [SaveFile ''denoising_autoencoder.h5'']\<rparr>"
  have g5: "train_and_save fw ?g4 = Inr ?g5"
    using train_and_save_result[of ?g4 ?m _ ?xn ?xt fw] assms
    by (simp add: fit_data_ok_def)
  obtain y where y: "predict ?m' ?xt = Inr y" "shape y = [M, 28, 28, 1]"
    using forward_autoencoder[of "astype ?xt Float32" M "weights ?m'" 0] assms(3,4)
    by (auto simp add: predict_def astype_def)
  let ?g6 = "?g5\<lparr>decoded_imgs := Some y,
            effects := effects ?g5 @ [PltFigure (20, 6)] @
              concat (map (pair_events 3 10 ?xt ''Noisy'' y ''Denoised'') [0 ..< 10]) @ [PltShow]\<rparr>"
  have g6: "denoise ?g5 = Inr ?g6"
    using denoise_result[of ?g5 ?m' ?xt y M M] y assms(3,4)
    by simp
  have cell1: "run_steps [preprocess, inject_noise fw, show_noisy] ?g0 = Inr ?g3"
    by (rule run_steps_Inr, rule g1, rule run_steps_Inr, rule g2, rule run_steps_Inr, rule g3)
       (rule run_steps.simps(1))
  have run: "notebook fw ?g0 = Inr ?g6"
    unfolding notebook_def
    by (rule run_steps_Inr, rule cell1, rule run_steps_Inr, rule g4, rule run_steps_Inr, rule g5,
        rule run_steps_Inr, rule g6)
       (rule run_steps.simps(1))
  show ?thesis
    unfolding run using y
    by (intro exI[of _ ?g6] exI[of _ ?m'] exI[of _ y])
       (simp add: trace_until_trained_def training_args_def loaded_def)
qed

subsection \<open>Effects of every run\<close>

lemma saves_append [simp]: "saves (xs @ ys) = saves xs @ saves ys"
  by (induction xs rule: saves.induct) simp_all

lemma trainings_append [simp]: "trainings (xs @ ys) = trainings xs @ trainings ys"
  by (induction xs rule: trainings.induct) simp_all

lemma silent_Nil [simp]: "silent []"
  by (simp add: silent_def)

lemma silent_append [simp]: "silent (xs @ ys) \<longleftrightarrow> silent xs \<and> silent ys"
  by (auto simp add: silent_def)

lemma silent_pairs [simp]: "silent (concat (map (pair_events nrows n a ta b tb) ks))"
  by (induction ks) (simp_all add: pair_events_def silent_def)

lemma silent_epochs [simp]: "silent (map EpochEnd ks)"
  by (induction ks) (simp_all add: silent_def)

lemma until_trained_append:
  "TrainEnd \<notin> set xs \<Longrightarrow> until_trained (xs @ ys) = xs @ until_trained ys"
  by (induction xs) (auto simp add: until_trained_def)

lemma until_trained_silent: "silent xs \<Longrightarrow> until_trained (xs @ ys) = xs @ until_trained ys"
  by (simp add: until_trained_append silent_def)

lemma quiet_emit:
  "saves [ev] = [] \<Longrightarrow> trainings [ev] = [] \<Longrightarrow> ev \<noteq> TrainEnd \<Longrightarrow> quiet (emit ev)"
  by (simp add: quiet_def emit_def final_def silent_def)

lemma quiet_assign: "(\<And>a g. effects (store a g) = effects g) \<Longrightarrow> quiet (assign rhs store)"
  by (simp add: quiet_def assign_def final_def split: sum.splits)

lemma quiet_run_steps: "(\<And>f. f \<in> set fs \<Longrightarrow> quiet f) \<Longrightarrow> quiet (run_steps fs)"
proof (induction fs)
  case Nil
  show ?case by (simp add: quiet_def final_def)
next
  case (Cons f fs)
  have f: "quiet f" and fs: "quiet (run_steps fs)"
    using Cons by simp_all
  show ?case
    unfolding quiet_def
  proof
    fix g
    obtain e1 where e1: "effects (final (f g)) = effects g @ e1" "silent e1"
      using f unfolding quiet_def by blast
    show "\<exists>evs. effects (final (run_steps (f # fs) g)) = effects g @ evs \<and> silent evs"
    proof (cases "f g")
      case (Inl r)
      then show ?thesis using e1 by auto
    next
      case (Inr g')
      obtain e2 where e2: "effects (final (run_steps fs g')) = effects g' @ e2" "silent e2"
        using fs unfolding quiet_def by blast
      have "effects g' = effects g @ e1"
        using e1 Inr by (simp add: final_def)
      then show ?thesis
        using e2 e1 Inr by (intro exI[of _ "e1 @ e2"]) simp
    qed
  qed
qed

lemma quiet_for_range: "(\<And>i. quiet (body i)) \<Longrightarrow> quiet (for_range n body)"
  unfolding for_range_def by (rule quiet_run_steps) auto

lemma quiet_plt_subplot: "quiet (plt_subplot nrows ncols k)"
  by (simp add: quiet_def plt_subplot_def emit_def final_def silent_def)

lemma quiet_plt_imshow: "quiet (plt_imshow img c)"
  by (simp add: quiet_def plt_imshow_def emit_def final_def silent_def split: sum.splits)

lemma quiet_preprocess: "quiet preprocess"
  unfolding preprocess_def by (rule quiet_run_steps) (auto intro!: quiet_assign)

lemma quiet_add_noise: "(\<And>a g. effects (store a g) = effects g) \<Longrightarrow> quiet (add_noise fw x store)"
  by (simp add: quiet_def add_noise_def random_normal_def assign_def final_def split: sum.splits)

lemma quiet_inject_noise: "quiet (inject_noise fw)"
  unfolding inject_noise_def by (rule quiet_run_steps) (auto intro!: quiet_assign quiet_add_noise)

lemma quiet_pair_body: "quiet (pair_body nrows n va ta vb tb i)"
  unfolding pair_body_def
  by (rule quiet_run_steps) (auto intro!: quiet_plt_subplot quiet_plt_imshow quiet_emit)

lemma quiet_show_noisy: "quiet show_noisy"
  unfolding show_noisy_eq
  by (rule quiet_run_steps) (auto intro!: quiet_for_range quiet_pair_body quiet_emit)

lemma quiet_show_denoised: "quiet show_denoised"
  unfolding show_denoised_eq
  by (rule quiet_run_steps) (auto intro!: quiet_for_range quiet_pair_body quiet_emit)

lemma quiet_keras_summary: "quiet keras_summary"
  by (simp add: quiet_def keras_summary_def emit_def final_def silent_def split: option.splits)

lemma quiet_define_model: "quiet (define_model fw)"
  unfolding define_model_def keras_compile_def
  by (rule quiet_run_steps) (auto intro!: quiet_assign quiet_keras_summary)

lemma quiet_denoise: "quiet denoise"
  unfolding denoise_def
  by (rule quiet_run_steps) (auto intro!: quiet_assign quiet_show_denoised)

lemma train_and_save_events:
  "\<exists>evs. effects (final (train_and_save fw g)) = effects g @ evs \<and>
     (evs = [] \<or> (\<exists>a. evs = [TrainBegin a] \<or> evs = training_events a \<or>
                        evs = training_events a @ [SaveFile ''denoising_autoencoder.h5'']))"
  by (auto simp add: train_and_save_def keras_fit_def keras_save_def emit_def final_def var_def
      training_events_def epoch_events_no_callbacks bind_err_def
      split: sum.splits option.splits prod.splits if_splits)

lemma until_trained_training:
  "until_trained (training_events a @ evs) = [TrainBegin a] @ map EpochEnd [0 ..< 10]"
proof -
  have "until_trained (map EpochEnd ks @ TrainEnd # evs) = map EpochEnd ks" for ks
    by (induction ks) (simp_all add: until_trained_def)
  then show ?thesis
    by (simp add: training_events_def until_trained_def)
qed

lemma silent_until_training_ends: "saves (until_trained (training_events a @ evs)) = []"
proof -
  have "saves (map EpochEnd ks) = []" for ks
    by (induction ks) simp_all
  then show ?thesis
    by (simp add: until_trained_training)
qed

lemma final_run_steps_Cons:
  "final (run_steps (f # fs) g) = (case f g of Inl r \<Rightarrow> final (f g) | Inr g' \<Rightarrow> final (run_steps fs g'))"
  by (simp split: sum.splits)

lemma saves_training_events [simp]: "saves (training_events a) = []"
proof -
  have "saves (map EpochEnd ks) = []" for ks
    by (induction ks) simp_all
  then show ?thesis
    by (simp add: training_events_def)
qed

lemma notebook_events:
  "\<exists>e1 e3 e4. effects (final (notebook fw g)) = effects g @ e1 @ e3 @ e4 \<and> silent e1 \<and> silent e4 \<and>
     (e3 = [] \<or> (\<exists>a. e3 = [TrainBegin a] \<or> e3 = training_events a \<or>
                       e3 = training_events a @ [SaveFile ''denoising_autoencoder.h5'']))"
proof -
  let ?cell1 = "run_steps [preprocess, inject_noise fw, show_noisy]"
  have q1: "quiet ?cell1"
    by (rule quiet_run_steps) (auto intro: quiet_preprocess quiet_inject_noise quiet_show_noisy)
  obtain e1 where e1: "effects (final (?cell1 g)) = effects g @ e1" "silent e1"
    using q1 unfolding quiet_def by blast
  show ?thesis
  proof (cases "?cell1 g")
    case (Inl r)
    then show ?thesis
      using e1 by (intro exI[of _ e1] exI[of _ "[]"]) (simp add: notebook_def)
  next
    case g1: (Inr g1)
    obtain e2 where e2: "effects (final (define_model fw g1)) = effects g1 @ e2" "silent e2"
      using quiet_define_model unfolding quiet_def by blast
    have eff1: "effects g1 = effects g @ e1"
      using e1 g1 by (simp add: final_def)
    show ?thesis
    proof (cases "define_model fw g1")
      case (Inl r)
      then show ?thesis
        using e1 e2 g1 eff1 by (intro exI[of _ "e1 @ e2"] exI[of _ "[]"]) (simp add: notebook_def)
    next
      case g2: (Inr g2)
      have eff2: "effects g2 = effects g @ e1 @ e2"
        using e2 g2 eff1 by (simp add: final_def)
      obtain e3 where e3: "effects (final (train_and_save fw g2)) = effects g2 @ e3"
        "e3 = [] \<or> (\<exists>a. e3 = [TrainBegin a] \<or> e3 = training_events a \<or>
                         e3 = training_events a @ [SaveFile ''denoising_autoencoder.h5''])"
        using train_and_save_events[of fw g2] by blast
      show ?thesis
      proof (cases "train_and_save fw g2")
        case (Inl r)
        then show ?thesis
          using e1 e2 e3 g1 g2 eff2
          by (intro exI[of _ "e1 @ e2"] exI[of _ e3] exI[of _ "[]"]) (simp add: notebook_def)
      next
        case g3: (Inr g3)
        have eff3: "effects g3 = effects g @ e1 @ e2 @ e3"
          using e3 g3 eff2 by (simp add: final_def)
        obtain e4 where e4: "effects (final (denoise g3)) = effects g3 @ e4" "silent e4"
          using quiet_denoise unfolding quiet_def by blast
        have "effects (final (notebook fw g)) = effects (final (denoise g3))"
          using g1 g2 g3 by (simp add: notebook_def final_def split: sum.splits)
        then show ?thesis
          using e1 e2 e3 e4 eff3
          by (intro exI[of _ "e1 @ e2"] exI[of _ e3] exI[of _ e4]) simp
      qed
    qed
  qed
qed

lemma notebook_saves:
  assumes "effects g = []"
  shows "saves (until_trained (effects (final (notebook fw g)))) = [] \<and>
         (saves (effects (final (notebook fw g))) = [] \<or>
          saves (effects (final (notebook fw g))) = [''denoising_autoencoder.h5''])"
proof -
  obtain e1 e3 e4 where ev: "effects (final (notebook fw g)) = e1 @ e3 @ e4" "silent e1" "silent e4"
    and e3: "e3 = [] \<or> (\<exists>a. e3 = [TrainBegin a] \<or> e3 = training_events a \<or>
                       e3 = training_events a @ [SaveFile ''denoising_autoencoder.h5''])"
    using notebook_events[of fw g] assms by auto
  have s1: "saves e1 = []" and s4: "saves e4 = []"
    using ev by (simp_all add: silent_def)
  have u4: "until_trained e4 = e4"
    using until_trained_silent[OF ev(3), of "[]"] by (simp add: until_trained_def)
  have ub: "until_trained (TrainBegin a # evs) = TrainBegin a # until_trained evs" for a evs
    by (simp add: until_trained_def)
  have "saves (until_trained (e3 @ e4)) = []"
    using e3 u4 s4 silent_until_training_ends by (auto simp add: ub)
  moreover have "saves e3 = [] \<or> saves e3 = [''denoising_autoencoder.h5'']"
    using e3 by auto
  ultimately show ?thesis
    using s1 s4 by (simp add: ev until_trained_silent)
qed

subsection \<open>Training, saving and element types\<close>

lemma epochs_reported_append [simp]: "epochs_reported (xs @ ys) = epochs_reported xs @ epochs_reported ys"
  by (induction xs rule: epochs_reported.induct) simp_all

lemma pairs_report_nothing [simp]:
  "epochs_reported (concat (map (pair_events nrows n a ta b tb) ks)) = []"
  by (induction ks) (simp_all add: pair_events_def)

lemma pairs_train_nothing [simp]:
  "trainings (concat (map (pair_events nrows n a ta b tb) ks)) = []"
  using silent_pairs[of nrows n a ta b tb ks] by (simp add: silent_def)

lemma pairs_save_nothing [simp]:
  "saves (concat (map (pair_events nrows n a ta b tb) ks)) = []"
  using silent_pairs[of nrows n a ta b tb ks] by (simp add: silent_def)

lemma pairs_no_TrainEnd [simp]:
  "TrainEnd \<notin> set (concat (map (pair_events nrows n a ta b tb) ks))"
  using silent_pairs[of nrows n a ta b tb ks] by (simp add: silent_def)

lemma epochs_reported_map [simp]: "epochs_reported (map EpochEnd ks) = ks"
  by (induction ks) simp_all

lemma trainings_epochs [simp]: "trainings (map EpochEnd ks) = []"
  by (induction ks) simp_all

lemma trace_trainings:
  "trainings (trace_until_trained fw raw_train raw_test) =
     [\<lparr>fit_x = noisy fw 0 (normalized raw_train), fit_y = normalized raw_train, epochs = 10,
        batch_size = 128, shuffle = True,
        validation_data = Some (noisy fw (prod_list (shape raw_train)) (normalized raw_test), normalized raw_test),
        callbacks = []\<rparr>]"
  by (simp add: trace_until_trained_def training_events_def)

lemma trace_epochs: "epochs_reported (trace_until_trained fw raw_train raw_test) = [0 ..< 10]"
  by (simp add: trace_until_trained_def training_events_def)

lemma trace_saves: "saves (trace_until_trained fw raw_train raw_test) = []"
  by (simp add: trace_until_trained_def)

lemma epochs_no_TrainEnd [simp]: "TrainEnd \<notin> set (map EpochEnd ks)"
  by (induction ks) simp_all

lemma trace_until_trained_split:
  "\<exists>pre. trace_until_trained fw raw_train raw_test = pre @ [TrainEnd] \<and> TrainEnd \<notin> set pre"
proof -
  let ?xt = "noisy fw (prod_list (shape raw_train)) (normalized raw_test)"
  let ?pre = "[PltFigure (20, 4)] @
     concat (map (pair_events 2 10 (normalized raw_test) ''Original'' ?xt ''Noisy'') [0 ..< 10]) @
     [PltShow, Summary autoencoder_layers] @
     [TrainBegin \<lparr>fit_x = noisy fw 0 (normalized raw_train), fit_y = normalized raw_train, epochs = 10,
        batch_size = 128, shuffle = True, validation_data = Some (?xt, normalized raw_test),
        callbacks = []\<rparr>] @ map EpochEnd [0 ..< 10]"
  have "trace_until_trained fw raw_train raw_test = ?pre @ [TrainEnd]"
    by (simp add: trace_until_trained_def training_events_def)
  moreover have "TrainEnd \<notin> set ?pre"
    by (simp del: set_concat set_map set_upt)
  ultimately show ?thesis
    by blast
qed

lemma trainings_training_events [simp]: "trainings (training_events a) = [a]"
  by (simp add: training_events_def)

lemma epochs_training_events [simp]: "epochs_reported (training_events a) = [0 ..< 10]"
  by (simp add: training_events_def)

text \<open>
  Claim C6. On every loader result with at least one training image and at least ten
  test images (all 28 by 28) the notebook runs to its end, and it trains once: with the
  noisy training batch as inputs and the clean one as targets, the noisy and the clean
  test batch as validation pair, 10 epochs (each reported), batch size 128, shuffling
  switched on and no callback; the model is compiled with the loss named
  \<open>binary_crossentropy\<close> and the optimizer named \<open>adam\<close>, which the library creates with
  its default hyperparameters. The compile settings do not depend on the data: in every
  state the model cell compiles the model so.
\<close>

theorem training_configuration:
  "(shape raw_train = [N, 28, 28] \<and> 0 < N \<and> shape raw_test = [M, 28, 28] \<and> 10 \<le> M \<longrightarrow>
      (\<exists>g' m cfg a xn xt.
         notebook fw (loaded raw_train raw_test) = Inr g' \<and>
         trainings (effects g') = [a] \<and>
         x_train_noisy g' = Some xn \<and> x_test_noisy g' = Some xt \<and>
         fit_x a = xn \<and> fit_y a = x_train g' \<and> validation_data a = Some (xt, x_test g') \<and>
         epochs a = 10 \<and> batch_size a = 128 \<and> shuffle a \<and> callbacks a = [] \<and>
         epochs_reported (effects g') = [0 ..< 10] \<and>
         autoencoder g' = Some m \<and> compiled m = Some cfg \<and>
         loss cfg = ''binary_crossentropy'' \<and> optimizer cfg = OptimizerName ''adam'' \<and>
         library_defaults (optimizer cfg))) \<and>
   (\<exists>g2 m cfg. define_model fw g = Inr g2 \<and> autoencoder g2 = Some m \<and> compiled m = Some cfg \<and>
      loss cfg = ''binary_crossentropy'' \<and> optimizer cfg = OptimizerName ''adam'' \<and>
      library_defaults (optimizer cfg))"
proof (intro conjI impI)
  assume valid: "shape raw_train = [N, 28, 28] \<and> 0 < N \<and> shape raw_test = [M, 28, 28] \<and> 10 \<le> M"
  obtain g' m y where run: "notebook fw (loaded raw_train raw_test) = Inr g'"
    and vars: "x_train g' = normalized raw_train" "x_test g' = normalized raw_test"
      "x_train_noisy g' = Some (noisy fw 0 (normalized raw_train))"
      "x_test_noisy g' = Some (noisy fw (prod_list (shape raw_train)) (normalized raw_test))"
    and m: "autoencoder g' = Some m"
      "compiled m = Some \<lparr>optimizer = OptimizerName ''adam'', loss = ''binary_crossentropy''\<rparr>"
    and eff: "effects g' = trace_until_trained fw raw_train raw_test @ [SaveFile ''denoising_autoencoder.h5''] @
        [PltFigure (20, 6)] @
        concat (map (pair_events 3 10 (noisy fw (prod_list (shape raw_train)) (normalized raw_test)) ''Noisy''
                       y ''Denoised'') [0 ..< 10]) @ [PltShow]"
    using notebook_run[of raw_train N raw_test M fw] valid by blast
  show "\<exists>g' m cfg a xn xt.
         notebook fw (loaded raw_train raw_test) = Inr g' \<and>
         trainings (effects g') = [a] \<and>
         x_train_noisy g' = Some xn \<and> x_test_noisy g' = Some xt \<and>
         fit_x a = xn \<and> fit_y a = x_train g' \<and> validation_data a = Some (xt, x_test g') \<and>
         epochs a = 10 \<and> batch_size a = 128 \<and> shuffle a \<and> callbacks a = [] \<and>
         epochs_reported (effects g') = [0 ..< 10] \<and>
         autoencoder g' = Some m \<and> compiled m = Some cfg \<and>
         loss cfg = ''binary_crossentropy'' \<and> optimizer cfg = OptimizerName ''adam'' \<and>
         library_defaults (optimizer cfg)"
    unfolding run using vars m
    by (simp add: eff trace_trainings trace_epochs)
next
  show "\<exists>g2 m cfg. define_model fw g = Inr g2 \<and> autoencoder g2 = Some m \<and> compiled m = Some cfg \<and>
      loss cfg = ''binary_crossentropy'' \<and> optimizer cfg = OptimizerName ''adam'' \<and>
      library_defaults (optimizer cfg)"
    by (simp add: define_model_result)
qed

theorem training_configuration_witness:
  "shape example_train = [1, 28, 28] \<and> (0::nat) < 1 \<and> shape example_test = [10, 28, 28] \<and> (10::nat) \<le> 10 \<and>
   (\<exists>g' m cfg a xn xt.
     notebook example_framework (loaded example_train example_test) = Inr g' \<and>
     trainings (effects g') = [a] \<and>
     x_train_noisy g' = Some xn \<and> x_test_noisy g' = Some xt \<and>
     fit_x a = xn \<and> fit_y a = x_train g' \<and> validation_data a = Some (xt, x_test g') \<and>
     epochs a = 10 \<and> batch_size a = 128 \<and> shuffle a \<and> callbacks a = [] \<and>
     epochs_reported (effects g') = [0 ..< 10] \<and>
     autoencoder g' = Some m \<and> compiled m = Some cfg \<and>
     loss cfg = ''binary_crossentropy'' \<and> optimizer cfg = OptimizerName ''adam'' \<and>
     library_defaults (optimizer cfg))"
proof -
  have h: "shape example_train = [1, 28, 28] \<and> (0::nat) < 1 \<and> shape example_test = [10, 28, 28] \<and> (10::nat) \<le> 10"
    by (simp add: example_train_def example_test_def)
  from training_configuration[of example_train 1 example_test 10 example_framework] h show ?thesis
    by blast
qed

text \<open>
  Claim C7. On every loader result with at least one training image and at least ten
  test images the notebook runs to its end and writes exactly one file,
  \<open>denoising_autoencoder.h5\<close>, right after the training run has ended. And on every
  loader result, whether the run ends or raises, no file is written before a training run
  has ended, and at most that one file is written.
\<close>

theorem saved_once_after_training:
  "(shape raw_train = [N, 28, 28] \<and> 0 < N \<and> shape raw_test = [M, 28, 28] \<and> 10 \<le> M \<longrightarrow>
      (\<exists>g' rest. notebook fw (loaded raw_train raw_test) = Inr g' \<and>
         effects g' = until_trained (effects g') @ [TrainEnd, SaveFile ''denoising_autoencoder.h5''] @ rest \<and>
         saves (until_trained (effects g')) = [] \<and> saves rest = [] \<and>
         saves (effects g') = [''denoising_autoencoder.h5''])) \<and>
   saves (until_trained (effects (final (notebook fw (loaded raw_train raw_test))))) = [] \<and>
   (saves (effects (final (notebook fw (loaded raw_train raw_test)))) = [] \<or>
    saves (effects (final (notebook fw (loaded raw_train raw_test)))) = [''denoising_autoencoder.h5''])"
proof (intro conjI impI)
  assume valid: "shape raw_train = [N, 28, 28] \<and> 0 < N \<and> shape raw_test = [M, 28, 28] \<and> 10 \<le> M"
  obtain g' y where run: "notebook fw (loaded raw_train raw_test) = Inr g'"
    and eff: "effects g' = trace_until_trained fw raw_train raw_test @ [SaveFile ''denoising_autoencoder.h5''] @
        [PltFigure (20, 6)] @
        concat (map (pair_events 3 10 (noisy fw (prod_list (shape raw_train)) (normalized raw_test)) ''Noisy''
                       y ''Denoised'') [0 ..< 10]) @ [PltShow]"
    using notebook_run[of raw_train N raw_test M fw] valid by blast
  obtain pre where pre: "trace_until_trained fw raw_train raw_test = pre @ [TrainEnd]" "TrainEnd \<notin> set pre"
    using trace_until_trained_split by blast
  have spre: "saves pre = []"
    using trace_saves[of fw raw_train raw_test] pre(1) by simp
  have u: "until_trained (effects g') = pre"
    using until_trained_append[OF pre(2), of "TrainEnd # _"]
    by (simp add: eff pre(1) until_trained_def)
  show "\<exists>g' rest. notebook fw (loaded raw_train raw_test) = Inr g' \<and>
         effects g' = until_trained (effects g') @ [TrainEnd, SaveFile ''denoising_autoencoder.h5''] @ rest \<and>
         saves (until_trained (effects g')) = [] \<and> saves rest = [] \<and>
         saves (effects g') = [''denoising_autoencoder.h5'']"
    unfolding run
    by (intro exI[of _ g'] exI[of _ "[PltFigure (20, 6)] @
        concat (map (pair_events 3 10 (noisy fw (prod_list (shape raw_train)) (normalized raw_test)) ''Noisy''
                       y ''Denoised'') [0 ..< 10]) @ [PltShow]"])
       (simp add: u spre, simp add: eff pre(1) spre)
next
  have e: "effects (loaded raw_train raw_test) = []"
    by (simp add: loaded_def)
  show "saves (until_trained (effects (final (notebook fw (loaded raw_train raw_test))))) = []"
    using notebook_saves[OF e, of fw] by simp
  show "saves (effects (final (notebook fw (loaded raw_train raw_test)))) = [] \<or>
    saves (effects (final (notebook fw (loaded raw_train raw_test)))) = [''denoising_autoencoder.h5'']"
    using notebook_saves[OF e, of fw] by simp
qed

theorem saved_once_after_training_witness:
  "shape example_train = [1, 28, 28] \<and> (0::nat) < 1 \<and> shape example_test = [10, 28, 28] \<and> (10::nat) \<le> 10 \<and>
   (\<exists>g' rest. notebook example_framework (loaded example_train example_test) = Inr g' \<and>
         effects g' = until_trained (effects g') @ [TrainEnd, SaveFile ''denoising_autoencoder.h5''] @ rest \<and>
         saves (until_trained (effects g')) = [] \<and> saves rest = [] \<and>
         saves (effects g') = [''denoising_autoencoder.h5''])"
proof -
  have h: "shape example_train = [1, 28, 28] \<and> (0::nat) < 1 \<and> shape example_test = [10, 28, 28] \<and> (10::nat) \<le> 10"
    by (simp add: example_train_def example_test_def)
  from saved_once_after_training[of example_train 1 example_test 10 example_framework] h show ?thesis
    by blast
qed

lemma preprocess_dtype:
  assumes "preprocess g = Inr g1"
  shows "dtype (x_train g1) = Float32 \<and> dtype (x_test g1) = Float32"
  using assms
  by (auto simp add: preprocess_cases reshape_def div_scalar_def astype_def
      split: sum.splits if_splits)

text \<open>
  Claim C10. Whenever preprocessing succeeds, whatever the element type of the raw
  batches, the clean batches are stored as float32 and noise injection leaves the noisy
  batches as float64, an element type twice as wide. In a complete run the training
  receives the float64 noisy batch as inputs and the float32 clean batch as targets.
\<close>

theorem noise_promotes_dtype:
  "(preprocess g = Inr g1 \<longrightarrow>
      (\<exists>g2 xn xt. inject_noise fw g1 = Inr g2 \<and>
         x_train_noisy g2 = Some xn \<and> x_test_noisy g2 = Some xt \<and>
         dtype (x_train g2) = Float32 \<and> dtype (x_test g2) = Float32 \<and>
         dtype xn = Float64 \<and> dtype xt = Float64 \<and>
         itemsize (dtype (x_train g2)) < itemsize (dtype xn) \<and>
         itemsize (dtype (x_test g2)) < itemsize (dtype xt))) \<and>
   (shape raw_train = [N, 28, 28] \<and> 0 < N \<and> shape raw_test = [M, 28, 28] \<and> 10 \<le> M \<longrightarrow>
      (\<exists>g' a. notebook fw (loaded raw_train raw_test) = Inr g' \<and>
         trainings (effects g') = [a] \<and> x_train_noisy g' = Some (fit_x a) \<and> fit_y a = x_train g' \<and>
         dtype (fit_x a) = Float64 \<and> dtype (fit_y a) = Float32))"
proof (intro conjI impI)
  assume "preprocess g = Inr g1"
  then show "\<exists>g2 xn xt. inject_noise fw g1 = Inr g2 \<and>
         x_train_noisy g2 = Some xn \<and> x_test_noisy g2 = Some xt \<and>
         dtype (x_train g2) = Float32 \<and> dtype (x_test g2) = Float32 \<and>
         dtype xn = Float64 \<and> dtype xt = Float64 \<and>
         itemsize (dtype (x_train g2)) < itemsize (dtype xn) \<and>
         itemsize (dtype (x_test g2)) < itemsize (dtype xt)"
    using preprocess_dtype[of g g1] by (simp add: inject_noise_result)
next
  assume valid: "shape raw_train = [N, 28, 28] \<and> 0 < N \<and> shape raw_test = [M, 28, 28] \<and> 10 \<le> M"
  obtain g' y where run: "notebook fw (loaded raw_train raw_test) = Inr g'"
    and vars: "x_train g' = normalized raw_train"
      "x_train_noisy g' = Some (noisy fw 0 (normalized raw_train))"
    and eff: "effects g' = trace_until_trained fw raw_train raw_test @ [SaveFile ''denoising_autoencoder.h5''] @
        [PltFigure (20, 6)] @
        concat (map (pair_events 3 10 (noisy fw (prod_list (shape raw_train)) (normalized raw_test)) ''Noisy''
                       y ''Denoised'') [0 ..< 10]) @ [PltShow]"
    using notebook_run[of raw_train N raw_test M fw] valid by blast
  show "\<exists>g' a. notebook fw (loaded raw_train raw_test) = Inr g' \<and>
         trainings (effects g') = [a] \<and> x_train_noisy g' = Some (fit_x a) \<and> fit_y a = x_train g' \<and>
         dtype (fit_x a) = Float64 \<and> dtype (fit_y a) = Float32"
    unfolding run using vars
    by (simp add: eff trace_trainings)
qed

theorem noise_promotes_dtype_witness:
  "preprocess (loaded example_train example_test) =
     Inr ((loaded example_train example_test)
            \<lparr>x_train := normalized example_train, x_test := normalized example_test\<rparr>) \<and>
   shape example_train = [1, 28, 28] \<and> (0::nat) < 1 \<and> shape example_test = [10, 28, 28] \<and> (10::nat) \<le> 10 \<and>
   (\<exists>g2 xn xt. inject_noise example_framework ((loaded example_train example_test)
            \<lparr>x_train := normalized example_train, x_test := normalized example_test\<rparr>) = Inr g2 \<and>
         x_train_noisy g2 = Some xn \<and> x_test_noisy g2 = Some xt \<and>
         dtype (x_train g2) = Float32 \<and> dtype (x_test g2) = Float32 \<and>
         dtype xn = Float64 \<and> dtype xt = Float64 \<and>
         itemsize (dtype (x_train g2)) < itemsize (dtype xn) \<and>
         itemsize (dtype (x_test g2)) < itemsize (dtype xt)) \<and>
   (\<exists>g' a. notebook example_framework (loaded example_train example_test) = Inr g' \<and>
         trainings (effects g') = [a] \<and> x_train_noisy g' = Some (fit_x a) \<and> fit_y a = x_train g' \<and>
         dtype (fit_x a) = Float64 \<and> dtype (fit_y a) = Float32)"
proof -
  let ?g = "loaded example_train example_test"
  let ?g1 = "?g\<lparr>x_train := normalized example_train, x_test := normalized example_test\<rparr>"
  have p: "preprocess ?g = Inr ?g1"
    using preprocess_normalized[of ?g 1 10]
    by (simp add: loaded_def example_train_def example_test_def)
  have h: "shape example_train = [1, 28, 28] \<and> (0::nat) < 1 \<and> shape example_test = [10, 28, 28] \<and> (10::nat) \<le> 10"
    by (simp add: example_train_def example_test_def)
  from noise_promotes_dtype[of ?g ?g1 example_framework example_train 1 example_test 10] p h show ?thesis
    by blast
qed

end
